theory Spec2Isabelle
  imports Complex_Main "HOL-Library.Char_ord"
begin

section \<open>Token kinds and characters\<close>

text \<open>
  The C enumeration \<^verbatim>\<open>Token\<close> of lexerDef.h. A C enum is an integer type whose
  enumerators are numbered from 0 in declaration order; the parser compares token kinds
  with \<^verbatim>\<open>>=\<close>, so the numbering is part of the program. The kinds are therefore
  natural numbers and every enumerator is an abbreviation of its number.
\<close>

type_synonym Token = nat

abbreviation (input) ASSIGNOP :: Token where "ASSIGNOP \<equiv> 0"
abbreviation (input) COMMENT :: Token where "COMMENT \<equiv> 1"
abbreviation (input) FIELDID :: Token where "FIELDID \<equiv> 2"
abbreviation (input) ID :: Token where "ID \<equiv> 3"
abbreviation (input) NUM :: Token where "NUM \<equiv> 4"
abbreviation (input) RNUM :: Token where "RNUM \<equiv> 5"
abbreviation (input) FUNID :: Token where "FUNID \<equiv> 6"
abbreviation (input) RUID :: Token where "RUID \<equiv> 7"
abbreviation (input) WITH :: Token where "WITH \<equiv> 8"
abbreviation (input) PARAMETERS :: Token where "PARAMETERS \<equiv> 9"
abbreviation (input) END :: Token where "END \<equiv> 10"
abbreviation (input) WHILE :: Token where "WHILE \<equiv> 11"
abbreviation (input) UNION :: Token where "UNION \<equiv> 12"
abbreviation (input) ENDUNION :: Token where "ENDUNION \<equiv> 13"
abbreviation (input) DEFINETYPE :: Token where "DEFINETYPE \<equiv> 14"
abbreviation (input) AS :: Token where "AS \<equiv> 15"
abbreviation (input) TYPE_tk :: Token where "TYPE_tk \<equiv> 16"
abbreviation (input) MAIN :: Token where "MAIN \<equiv> 17"
abbreviation (input) GLOBAL :: Token where "GLOBAL \<equiv> 18"
abbreviation (input) PARAMETER :: Token where "PARAMETER \<equiv> 19"
abbreviation (input) LIST :: Token where "LIST \<equiv> 20"
abbreviation (input) SQL :: Token where "SQL \<equiv> 21"
abbreviation (input) SQR :: Token where "SQR \<equiv> 22"
abbreviation (input) INPUT :: Token where "INPUT \<equiv> 23"
abbreviation (input) OUTPUT :: Token where "OUTPUT \<equiv> 24"
abbreviation (input) INT_tk :: Token where "INT_tk \<equiv> 25"
abbreviation (input) REAL :: Token where "REAL \<equiv> 26"
abbreviation (input) COMMA :: Token where "COMMA \<equiv> 27"
abbreviation (input) SEM :: Token where "SEM \<equiv> 28"
abbreviation (input) COLON :: Token where "COLON \<equiv> 29"
abbreviation (input) DOT :: Token where "DOT \<equiv> 30"
abbreviation (input) ENDWHILE :: Token where "ENDWHILE \<equiv> 31"
abbreviation (input) OP :: Token where "OP \<equiv> 32"
abbreviation (input) CL :: Token where "CL \<equiv> 33"
abbreviation (input) IF :: Token where "IF \<equiv> 34"
abbreviation (input) THEN :: Token where "THEN \<equiv> 35"
abbreviation (input) ENDIF :: Token where "ENDIF \<equiv> 36"
abbreviation (input) READ :: Token where "READ \<equiv> 37"
abbreviation (input) WRITE :: Token where "WRITE \<equiv> 38"
abbreviation (input) RETURN :: Token where "RETURN \<equiv> 39"
abbreviation (input) PLUS :: Token where "PLUS \<equiv> 40"
abbreviation (input) MINUS :: Token where "MINUS \<equiv> 41"
abbreviation (input) MUL :: Token where "MUL \<equiv> 42"
abbreviation (input) DIV :: Token where "DIV \<equiv> 43"
abbreviation (input) CALL :: Token where "CALL \<equiv> 44"
abbreviation (input) RECORD :: Token where "RECORD \<equiv> 45"
abbreviation (input) ENDRECORD :: Token where "ENDRECORD \<equiv> 46"
abbreviation (input) ELSE :: Token where "ELSE \<equiv> 47"
abbreviation (input) AND_tk :: Token where "AND_tk \<equiv> 48"
abbreviation (input) OR_tk :: Token where "OR_tk \<equiv> 49"
abbreviation (input) NOT_tk :: Token where "NOT_tk \<equiv> 50"
abbreviation (input) LT :: Token where "LT \<equiv> 51"
abbreviation (input) LE :: Token where "LE \<equiv> 52"
abbreviation (input) EQ :: Token where "EQ \<equiv> 53"
abbreviation (input) GT :: Token where "GT \<equiv> 54"
abbreviation (input) GE :: Token where "GE \<equiv> 55"
abbreviation (input) NE :: Token where "NE \<equiv> 56"
abbreviation (input) EPS :: Token where "EPS \<equiv> 57"
abbreviation (input) DOLLAR :: Token where "DOLLAR \<equiv> 58"
abbreviation (input) LEXICAL_ERROR :: Token where "LEXICAL_ERROR \<equiv> 59"
abbreviation (input) ID_LENGTH_EXC :: Token where "ID_LENGTH_EXC \<equiv> 60"
abbreviation (input) FUN_LENGTH_EXC :: Token where "FUN_LENGTH_EXC \<equiv> 61"
abbreviation (input) TK_NOT_FOUND :: Token where "TK_NOT_FOUND \<equiv> 62"

abbreviation (input) BUFFER_SZ :: nat where "BUFFER_SZ \<equiv> 256"

text \<open>
  Characters are bytes. The tests of the automaton are range tests against ASCII letters
  and digits, which give the same answer whether \<^verbatim>\<open>char\<close> is signed or unsigned
  (a byte above 127 is outside every range either way); \<^verbatim>\<open>isdigit\<close>,
  \<^verbatim>\<open>islower\<close> and \<^verbatim>\<open>isalpha\<close> are those of the C locale.
\<close>

abbreviation (input) NUL :: char where "NUL \<equiv> CHR 0x00"
abbreviation (input) NEWLINE :: char where "NEWLINE \<equiv> CHR 0x0A"
abbreviation (input) TAB :: char where "TAB \<equiv> CHR 0x09"
abbreviation (input) CR :: char where "CR \<equiv> CHR 0x0D"

definition isdigit :: "char \<Rightarrow> bool" where
  "isdigit ch = (CHR ''0'' \<le> ch \<and> ch \<le> CHR ''9'')"

definition islower :: "char \<Rightarrow> bool" where
  "islower ch = (CHR ''a'' \<le> ch \<and> ch \<le> CHR ''z'')"

definition isalpha :: "char \<Rightarrow> bool" where
  "isalpha ch = (islower ch \<or> (CHR ''A'' \<le> ch \<and> ch \<le> CHR ''Z''))"

text \<open>The promotion of a \<^verbatim>\<open>char\<close> to \<^verbatim>\<open>int\<close> in an arithmetic expression.\<close>

definition code :: "char \<Rightarrow> int" where
  "code ch = int (of_char ch)"

section \<open>Keyword trie\<close>

text \<open>
  \<^verbatim>\<open>TrieNode\<close>: 26 child pointers (\<^verbatim>\<open>NULL\<close> is \<open>None\<close>), the end-of-word flag and the
  token of the word. \<^verbatim>\<open>newTrieNode\<close> leaves \<^verbatim>\<open>tokenType\<close> unset; it is read only where
  \<^verbatim>\<open>isEnd\<close> is set, so the model fills it with \<^verbatim>\<open>TK_NOT_FOUND\<close>.
\<close>

datatype TrieNode = TrieNode (children: "nat \<Rightarrow> TrieNode option") (isEnd: bool) (trieToken: Token)

definition newTrieNode :: TrieNode where
  "newTrieNode = TrieNode (\<lambda>_. None) False TK_NOT_FOUND"

definition trieIdx :: "char \<Rightarrow> nat" where
  "trieIdx ch = of_char ch - of_char (CHR ''a'')"

fun addKeyword :: "TrieNode \<Rightarrow> string \<Rightarrow> Token \<Rightarrow> TrieNode" where
  "addKeyword cur [] tkType = TrieNode (children cur) True tkType"
| "addKeyword cur (c # word) tkType =
     (let idx = trieIdx c;
          child = (case children cur idx of None \<Rightarrow> newTrieNode | Some n \<Rightarrow> n)
      in TrieNode ((children cur)(idx \<mapsto> addKeyword child word tkType)) (isEnd cur) (trieToken cur))"

fun findKeyword :: "TrieNode \<Rightarrow> string \<Rightarrow> Token" where
  "findKeyword cur [] = (if isEnd cur then trieToken cur else TK_NOT_FOUND)"
| "findKeyword cur (c # word) =
     (case children cur (trieIdx c) of None \<Rightarrow> TK_NOT_FOUND | Some n \<Rightarrow> findKeyword n word)"

definition setupKeywordTrie :: "TrieNode \<Rightarrow> TrieNode" where
  "setupKeywordTrie trie = foldl (\<lambda>t (w, tk). addKeyword t w tk) trie
     [(''with'', WITH), (''parameters'', PARAMETERS), (''end'', END), (''while'', WHILE),
      (''union'', UNION), (''endunion'', ENDUNION), (''definetype'', DEFINETYPE), (''as'', AS),
      (''type'', TYPE_tk), (''global'', GLOBAL), (''parameter'', PARAMETER), (''list'', LIST),
      (''input'', INPUT), (''output'', OUTPUT), (''int'', INT_tk), (''real'', REAL),
      (''endwhile'', ENDWHILE), (''if'', IF), (''then'', THEN), (''endif'', ENDIF),
      (''read'', READ), (''write'', WRITE), (''return'', RETURN), (''call'', CALL),
      (''record'', RECORD), (''endrecord'', ENDRECORD), (''else'', ELSE)]"

section \<open>Symbol table and token list\<close>

text \<open>
  Entries are never written after \<^verbatim>\<open>newSymbolTableEntry\<close>, so a pointer to an entry is
  modelled by the entry itself. The numeric field is a C \<^verbatim>\<open>double\<close>; the model computes
  in the reals and does not round.
\<close>

record SymbolTableEntry =
  lexeme :: string
  tokenType :: Token
  numericValue :: real

type_synonym SymbolTable = "SymbolTableEntry list"

record TokenNode =
  entry :: SymbolTableEntry
  lineNum :: int

definition newSymbolTableEntry :: "string \<Rightarrow> Token \<Rightarrow> real \<Rightarrow> SymbolTableEntry" where
  "newSymbolTableEntry lx tkType numVal = \<lparr>lexeme = lx, tokenType = tkType, numericValue = numVal\<rparr>"

definition addToken :: "SymbolTable \<Rightarrow> SymbolTableEntry \<Rightarrow> SymbolTable" where
  "addToken table e = table @ [e]"

definition lookupToken :: "SymbolTable \<Rightarrow> string \<Rightarrow> SymbolTableEntry option" where
  "lookupToken table lx = find (\<lambda>e. lexeme e = lx) table"

definition newTokenNode :: "SymbolTableEntry \<Rightarrow> int \<Rightarrow> TokenNode" where
  "newTokenNode e lnum = \<lparr>entry = e, lineNum = lnum\<rparr>"

section \<open>Twin buffer\<close>

text \<open>
  The lexer's state: the input stream (the bytes not yet read and the end-of-file
  indicator that \<^verbatim>\<open>feof\<close> tests), the twin buffer of \<open>2 * BUFFER_SZ\<close> bytes (an array,
  indexed only modulo its size), the forward pointer, the global \<^verbatim>\<open>retractFlag\<close>, the
  line counter and the symbol table.
\<close>

record LexState =
  fileRest :: "char list"
  fileEof :: bool
  buffer :: "nat \<Rightarrow> char"
  forwardPtr :: nat
  retractFlag :: bool
  lineNumber :: int
  symTable :: SymbolTable

text \<open>
  \<^verbatim>\<open>fread(buffer + base, 1, BUFFER_SZ, fp)\<close> followed by the planting of the sentinel
  when fewer than \<open>BUFFER_SZ\<close> bytes arrived. A short read sets the end-of-file indicator.
\<close>

definition refill :: "nat \<Rightarrow> LexState \<Rightarrow> LexState" where
  "refill base s =
     (let chunk = take BUFFER_SZ (fileRest s);
          bytesRead = length chunk;
          b1 = (\<lambda>i. if base \<le> i \<and> i < base + bytesRead then chunk ! (i - base) else buffer s i);
          b2 = (if bytesRead < BUFFER_SZ then b1(base + bytesRead := NUL) else b1)
      in s\<lparr>fileRest := drop BUFFER_SZ (fileRest s), fileEof := (bytesRead < BUFFER_SZ),
            buffer := b2\<rparr>)"

definition fetchNextChar :: "LexState \<Rightarrow> char \<times> LexState" where
  "fetchNextChar s =
     (let s1 = (if forwardPtr s = BUFFER_SZ - 1 \<and> \<not> retractFlag s then
                  (if fileEof s then s\<lparr>buffer := (buffer s)(BUFFER_SZ := NUL)\<rparr>
                   else refill BUFFER_SZ s)
                else if forwardPtr s = 2 * BUFFER_SZ - 1 \<and> \<not> retractFlag s then
                  (if fileEof s then s\<lparr>buffer := (buffer s)(0 := NUL)\<rparr>
                   else refill 0 s)
                else s);
          p = (forwardPtr s1 + 1) mod (2 * BUFFER_SZ)
      in (buffer s1 p, s1\<lparr>retractFlag := False, forwardPtr := p\<rparr>))"

text \<open>
  \<^verbatim>\<open>--(*forwardPtr); if (*forwardPtr < 0) *forwardPtr += 2 * BUFFER_SZ;\<close> and the setting
  of the retract flag at a segment boundary. The pointer is a natural number here, so the
  step below zero is written as the wrap it becomes.
\<close>

definition retract :: "LexState \<Rightarrow> LexState" where
  "retract s =
     (let p = (if forwardPtr s = 0 then 2 * BUFFER_SZ - 1 else forwardPtr s - 1)
      in s\<lparr>forwardPtr := p,
            retractFlag := (retractFlag s \<or> p = BUFFER_SZ - 1 \<or> p = 2 * BUFFER_SZ - 1)\<rparr>)"

definition retract2 :: "LexState \<Rightarrow> LexState" where
  "retract2 s =
     (let p = (if forwardPtr s < 2 then forwardPtr s + 2 * BUFFER_SZ - 2 else forwardPtr s - 2)
      in s\<lparr>forwardPtr := p,
            retractFlag := (retractFlag s \<or> p = BUFFER_SZ - 1 \<or> p = BUFFER_SZ - 2
                             \<or> p = 2 * BUFFER_SZ - 1 \<or> p = 2 * BUFFER_SZ - 2)\<rparr>)"

definition getLexemeLength :: "nat \<Rightarrow> nat \<Rightarrow> nat" where
  "getLexemeLength begPtr fwd =
     (if fwd \<ge> begPtr then fwd - begPtr + 1 else 2 * BUFFER_SZ + fwd - begPtr + 1)"

text \<open>
  \<^verbatim>\<open>extractLexeme\<close> copies the bytes from \<open>beginPtr\<close> to the forward pointer, wrapping
  round the end of the buffer. The local array of the source holds \<open>BUFFER_SZ\<close> bytes;
  the model's string has no bound.
\<close>

definition extractLexeme :: "nat \<Rightarrow> LexState \<Rightarrow> string" where
  "extractLexeme beginPtr s =
     map (\<lambda>i. buffer s ((beginPtr + i) mod (2 * BUFFER_SZ)))
         [0 ..< getLexemeLength beginPtr (forwardPtr s)]"

section \<open>Numeric conversion\<close>

text \<open>
  \<^verbatim>\<open>lexeme[i]\<close> on the NUL-terminated local array: the byte at the position of the
  terminator is NUL.
\<close>

definition charAt :: "string \<Rightarrow> nat \<Rightarrow> char" where
  "charAt lx i = (if i < length lx then lx ! i else NUL)"

definition digitVal :: "char \<Rightarrow> real" where
  "digitVal ch = real_of_int (code ch - code (CHR ''0''))"

text \<open>States 5 and 60: \<^verbatim>\<open>numVal = numVal * 10 + (lexeme[i] - '0')\<close> over the lexeme.\<close>

definition numVal :: "string \<Rightarrow> real" where
  "numVal lx = foldl (\<lambda>v ch. v * 10 + digitVal ch) 0 lx"

text \<open>
  States 6 and 7: the digits before the point, then
  \<^verbatim>\<open>val += (lexeme[i+1] - '0') / 10.0 + (lexeme[i+2] - '0') / 100.0\<close>.
\<close>

definition pointIdx :: "string \<Rightarrow> nat" where
  "pointIdx lx = length (takeWhile (\<lambda>ch. ch \<noteq> CHR ''.'') lx)"

definition realVal :: "string \<Rightarrow> real" where
  "realVal lx =
     (let i = pointIdx lx
      in numVal (take i lx) + (digitVal (charAt lx (i + 1)) / 10 + digitVal (charAt lx (i + 2)) / 100))"

text \<open>
  State 7, the exponent, as the source computes it:
  \<^verbatim>\<open>i += 4; if (isdigit(lexeme[i])) exp = lexeme[i] * 10 + lexeme[i+1];
  else exp = lexeme[i+1] * 10 + lexeme[i+2]; if (lexeme[i] == '-') exp = -exp;\<close>
\<close>

definition expOf :: "string \<Rightarrow> int" where
  "expOf lx =
     (let i = pointIdx lx + 4;
          e = (if isdigit (charAt lx i) then code (charAt lx i) * 10 + code (charAt lx (i + 1))
               else code (charAt lx (i + 1)) * 10 + code (charAt lx (i + 2)))
      in if charAt lx i = CHR ''-'' then - e else e)"

text \<open>\<^verbatim>\<open>pow(10, exp)\<close> in the reals.\<close>

definition pow10 :: "int \<Rightarrow> real" where
  "pow10 e = (if 0 \<le> e then 10 ^ nat e else 1 / 10 ^ nat (- e))"

definition realExpVal :: "string \<Rightarrow> real" where
  "realExpVal lx = realVal lx * pow10 (expOf lx)"

section \<open>The automaton\<close>

text \<open>
  One turn of \<^verbatim>\<open>while (true) switch (state)\<close> either sets the next state and breaks
  (\<open>Goto\<close>, with the possibly advanced \<open>beginPtr\<close>), or returns a token node or
  \<^verbatim>\<open>NULL\<close> (\<open>Return\<close>), or is caught in an inner loop that has used up its fuel
  (\<open>Diverge\<close>).
\<close>

datatype Outcome = Goto nat nat LexState | Return "TokenNode option" LexState | Diverge

text \<open>
  The idiom that ends every accepting state: look the lexeme up, build and add a new
  entry only when there is none, and hand back the entry for the token node.
\<close>

definition internEntry :: "string \<Rightarrow> Token \<Rightarrow> real \<Rightarrow> SymbolTable \<Rightarrow> SymbolTableEntry \<times> SymbolTable" where
  "internEntry lx tk v table =
     (case lookupToken table lx of
        Some e \<Rightarrow> (e, table)
      | None \<Rightarrow> (let e = newSymbolTableEntry lx tk v in (e, addToken table e)))"

definition acceptWith :: "(string \<Rightarrow> Token) \<Rightarrow> (string \<Rightarrow> real) \<Rightarrow> nat \<Rightarrow> LexState \<Rightarrow> Outcome" where
  "acceptWith kind val beginPtr s =
     (let lx = extractLexeme beginPtr s;
          (e, table) = internEntry lx (kind lx) (val lx) (symTable s)
      in Return (Some (newTokenNode e (lineNumber s))) (s\<lparr>symTable := table\<rparr>))"

definition accept :: "Token \<Rightarrow> nat \<Rightarrow> LexState \<Rightarrow> Outcome" where
  "accept tk beginPtr s = acceptWith (\<lambda>_. tk) (\<lambda>_. 0) beginPtr s"

text \<open>States 3 and 79: a keyword of the trie, otherwise a field identifier.\<close>

definition wordKind :: "TrieNode \<Rightarrow> string \<Rightarrow> Token" where
  "wordKind keywordTrie lx =
     (let tk = findKeyword keywordTrie lx in if tk = TK_NOT_FOUND then FIELDID else tk)"

text \<open>\<^verbatim>\<open>for (; P(ch); ch = fetchNextChar(...));\<close>\<close>

fun skipWhile :: "nat \<Rightarrow> (char \<Rightarrow> bool) \<Rightarrow> char \<Rightarrow> LexState \<Rightarrow> (char \<times> LexState) option" where
  "skipWhile 0 P ch s = (if P ch then None else Some (ch, s))"
| "skipWhile (Suc fuel) P ch s =
     (if P ch then (let (ch', s') = fetchNextChar s in skipWhile fuel P ch' s') else Some (ch, s))"

text \<open>
  The block shared by states 4, 80 (cap 20) and 8, 81 (cap 30): cut the lexeme at the
  cap, append three dots, intern it as the error kind, then read on while the skip test
  holds and retract once. It yields the token node, the last character read and the state.
\<close>

definition lengthExceeded ::
    "nat \<Rightarrow> nat \<Rightarrow> Token \<Rightarrow> (char \<Rightarrow> bool) \<Rightarrow> nat \<Rightarrow> LexState \<Rightarrow> (TokenNode \<times> char \<times> LexState) option" where
  "lengthExceeded fuel cap tk skip beginPtr s =
     (let lx = take cap (extractLexeme beginPtr s) @ ''...'';
          (e, table) = internEntry lx tk 0 (symTable s);
          tokenNode = newTokenNode e (lineNumber s);
          (ch, s1) = fetchNextChar (s\<lparr>symTable := table\<rparr>)
      in case skipWhile fuel skip ch s1 of
           None \<Rightarrow> None
         | Some (ch', s2) \<Rightarrow> Some (tokenNode, ch', retract s2))"

definition isOct :: "char \<Rightarrow> bool" where
  "isOct ch = (CHR ''2'' \<le> ch \<and> ch \<le> CHR ''7'')"

definition isBD :: "char \<Rightarrow> bool" where
  "isBD ch = (CHR ''b'' \<le> ch \<and> ch \<le> CHR ''d'')"

definition state0 :: "nat \<Rightarrow> LexState \<Rightarrow> Outcome" where
  "state0 beginPtr s =
     (let (ch, s1) = fetchNextChar s in
      if ch = NEWLINE then
        Goto 0 ((beginPtr + 1) mod (2 * BUFFER_SZ)) (s1\<lparr>lineNumber := lineNumber s1 + 1\<rparr>)
      else if ch = CHR '' '' \<or> ch = TAB \<or> ch = CR then
        Goto 0 ((beginPtr + 1) mod (2 * BUFFER_SZ)) s1
      else if isdigit ch then Goto 5 beginPtr s1
      else if ch = CHR ''%'' then Goto 65 beginPtr s1
      else if ch = CHR ''>'' then Goto 56 beginPtr s1
      else if ch = CHR ''<'' then Goto 53 beginPtr s1
      else if ch = CHR ''='' then Goto 68 beginPtr s1
      else if ch = CHR ''_'' then Goto 69 beginPtr s1
      else if ch = CHR ''/'' then Goto 45 beginPtr s1
      else if ch = CHR ''@'' then Goto 73 beginPtr s1
      else if ch = CHR ''*'' then Goto 44 beginPtr s1
      else if ch = CHR ''#'' then Goto 75 beginPtr s1
      else if ch = CHR ''['' then Goto 23 beginPtr s1
      else if ch = CHR '']'' then Goto 24 beginPtr s1
      else if ch = CHR '','' then Goto 29 beginPtr s1
      else if ch = CHR '':'' then Goto 31 beginPtr s1
      else if ch = CHR '';'' then Goto 30 beginPtr s1
      else if ch = CHR ''+'' then Goto 42 beginPtr s1
      else if ch = CHR '')'' then Goto 35 beginPtr s1
      else if ch = CHR ''-'' then Goto 43 beginPtr s1
      else if ch = CHR ''('' then Goto 34 beginPtr s1
      else if ch = CHR ''&'' then Goto 76 beginPtr s1
      else if ch = CHR ''~'' then Goto 52 beginPtr s1
      else if ch = CHR ''!'' then Goto 78 beginPtr s1
      else if ch = CHR ''a'' \<or> (ch > CHR ''d'' \<and> ch \<le> CHR ''z'') then Goto 3 beginPtr s1
      else if isBD ch then Goto 79 beginPtr s1
      else if ch = CHR ''.'' then Goto 59 beginPtr s1
      else if ch = NUL then
        Return (Some (newTokenNode (newSymbolTableEntry [] DOLLAR 0) (lineNumber s1))) s1
      else
        (let (e, table) = internEntry [ch] LEXICAL_ERROR 0 (symTable s1)
         in Return (Some (newTokenNode e (lineNumber s1))) (s1\<lparr>symTable := table\<rparr>)))"

definition state3 :: "TrieNode \<Rightarrow> nat \<Rightarrow> LexState \<Rightarrow> Outcome" where
  "state3 keywordTrie beginPtr s =
     (let (ch, s1) = fetchNextChar s in
      if \<not> islower ch then acceptWith (wordKind keywordTrie) (\<lambda>_. 0) beginPtr (retract s1)
      else Goto 3 beginPtr s1)"

definition state4 :: "nat \<Rightarrow> nat \<Rightarrow> LexState \<Rightarrow> Outcome" where
  "state4 fuel beginPtr s =
     (let (ch, s1) = fetchNextChar s in
      if ch < CHR ''2'' \<or> ch > CHR ''7'' then accept ID beginPtr (retract s1)
      else if getLexemeLength beginPtr (forwardPtr s1) > 20 then
        (case lengthExceeded fuel 20 ID_LENGTH_EXC isBD beginPtr s1 of
           None \<Rightarrow> Diverge
         | Some (tokenNode, ch', s2) \<Rightarrow>
             if isOct ch' then Goto 4 beginPtr s2 else Return (Some tokenNode) s2)
      else Goto 4 beginPtr s1)"

definition state5 :: "nat \<Rightarrow> LexState \<Rightarrow> Outcome" where
  "state5 beginPtr s =
     (let (ch, s1) = fetchNextChar s in
      if ch = CHR ''.'' then Goto 60 beginPtr s1
      else if \<not> isdigit ch then acceptWith (\<lambda>_. NUM) numVal beginPtr (retract s1)
      else Goto 5 beginPtr s1)"

definition state6 :: "nat \<Rightarrow> LexState \<Rightarrow> Outcome" where
  "state6 beginPtr s =
     (let (ch, s1) = fetchNextChar s in
      if ch = CHR ''E'' then Goto 62 beginPtr s1
      else acceptWith (\<lambda>_. RNUM) realVal beginPtr (retract s1))"

definition state7 :: "nat \<Rightarrow> LexState \<Rightarrow> Outcome" where
  "state7 beginPtr s = acceptWith (\<lambda>_. RNUM) realExpVal beginPtr s"

definition state8 :: "nat \<Rightarrow> nat \<Rightarrow> LexState \<Rightarrow> Outcome" where
  "state8 fuel beginPtr s =
     (let (ch, s1) = fetchNextChar s in
      if \<not> isdigit ch \<and> \<not> isalpha ch then accept FUNID beginPtr (retract s1)
      else if getLexemeLength beginPtr (forwardPtr s1) > 30 then
        (case lengthExceeded fuel 30 FUN_LENGTH_EXC isdigit beginPtr s1 of
           None \<Rightarrow> Diverge
         | Some (tokenNode, ch', s2) \<Rightarrow>
             if isdigit ch' then Goto 81 beginPtr s2 else Return (Some tokenNode) s2)
      else Goto (if isdigit ch then 81 else 8) beginPtr s1)"

definition state9 :: "nat \<Rightarrow> LexState \<Rightarrow> Outcome" where
  "state9 beginPtr s =
     (let (ch, s1) = fetchNextChar s in
      if \<not> islower ch then accept RUID beginPtr (retract s1) else Goto 9 beginPtr s1)"

definition state19 :: "nat \<Rightarrow> LexState \<Rightarrow> Outcome" where
  "state19 beginPtr s =
     (let (ch, s1) = fetchNextChar s in
      if isalpha ch then Goto 8 beginPtr s1
      else if isdigit ch then Goto 81 beginPtr s1
      else accept MAIN beginPtr (retract s1))"

definition state53 :: "nat \<Rightarrow> LexState \<Rightarrow> Outcome" where
  "state53 beginPtr s =
     (let (ch, s1) = fetchNextChar s in
      if ch = CHR ''-'' then Goto 66 beginPtr s1
      else if ch = CHR ''='' then Goto 54 beginPtr s1
      else accept LT beginPtr (retract s1))"

definition state56 :: "nat \<Rightarrow> LexState \<Rightarrow> Outcome" where
  "state56 beginPtr s =
     (let (ch, s1) = fetchNextChar s in
      if ch = CHR ''='' then Goto 57 beginPtr s1 else accept GT beginPtr (retract s1))"

definition state60 :: "nat \<Rightarrow> LexState \<Rightarrow> Outcome" where
  "state60 beginPtr s =
     (let (ch, s1) = fetchNextChar s in
      if isdigit ch then Goto 61 beginPtr s1
      else acceptWith (\<lambda>_. NUM) numVal beginPtr (retract2 s1))"

text \<open>
  States 61 to 64, 67 to 69 and 73 to 78 have one shape: one character is read; a
  character of the expected class moves on, any other is given back and the lexeme so
  far is an unrecognized pattern.
\<close>

definition expect :: "(char \<Rightarrow> nat option) \<Rightarrow> nat \<Rightarrow> LexState \<Rightarrow> Outcome" where
  "expect next beginPtr s =
     (let (ch, s1) = fetchNextChar s in
      case next ch of
        Some st \<Rightarrow> Goto st beginPtr s1
      | None \<Rightarrow> accept LEXICAL_ERROR beginPtr (retract s1))"

text \<open>
  State 65: the comment token is interned as soon as the percent sign is read; then
  \<^verbatim>\<open>for (; (ch = fetchNextChar(...)) != '\n'; );\<close> and the line counter moves on.
\<close>

definition state65 :: "nat \<Rightarrow> nat \<Rightarrow> LexState \<Rightarrow> Outcome" where
  "state65 fuel beginPtr s =
     (let lx = extractLexeme beginPtr s;
          (e, table) = internEntry lx COMMENT 0 (symTable s);
          tokenNode = newTokenNode e (lineNumber s);
          (ch, s1) = fetchNextChar (s\<lparr>symTable := table\<rparr>)
      in case skipWhile fuel (\<lambda>c. c \<noteq> NEWLINE) ch s1 of
           None \<Rightarrow> Diverge
         | Some (ch', s2) \<Rightarrow> Return (Some tokenNode) (s2\<lparr>lineNumber := lineNumber s2 + 1\<rparr>))"

definition state66 :: "nat \<Rightarrow> LexState \<Rightarrow> Outcome" where
  "state66 beginPtr s =
     (let (ch, s1) = fetchNextChar s in
      if ch = CHR ''-'' then Goto 67 beginPtr s1 else accept LT beginPtr (retract2 s1))"

text \<open>States 70, 71 and 72 spell out \<^verbatim>\<open>_main\<close>; the letter expected next is a parameter.\<close>

definition stateMain :: "char \<Rightarrow> nat \<Rightarrow> nat \<Rightarrow> LexState \<Rightarrow> Outcome" where
  "stateMain letter st beginPtr s =
     (let (ch, s1) = fetchNextChar s in
      if isdigit ch then Goto 81 beginPtr s1
      else if ch = letter then Goto st beginPtr s1
      else if isalpha ch then Goto 8 beginPtr s1
      else accept FUNID beginPtr (retract s1))"

definition state79 :: "TrieNode \<Rightarrow> nat \<Rightarrow> LexState \<Rightarrow> Outcome" where
  "state79 keywordTrie beginPtr s =
     (let (ch, s1) = fetchNextChar s in
      if islower ch then Goto 3 beginPtr s1
      else if isOct ch then Goto 80 beginPtr s1
      else acceptWith (wordKind keywordTrie) (\<lambda>_. 0) beginPtr (retract s1))"

definition state80 :: "nat \<Rightarrow> nat \<Rightarrow> LexState \<Rightarrow> Outcome" where
  "state80 fuel beginPtr s =
     (let (ch, s1) = fetchNextChar s in
      if \<not> isOct ch \<and> (ch < CHR ''b'' \<or> ch > CHR ''d'') then accept ID beginPtr (retract s1)
      else if getLexemeLength beginPtr (forwardPtr s1) > 20 then
        (case lengthExceeded fuel 20 ID_LENGTH_EXC isBD beginPtr s1 of
           None \<Rightarrow> Diverge
         | Some (tokenNode, ch', s2) \<Rightarrow>
             if isOct ch' then Goto 4 beginPtr s2 else Return (Some tokenNode) s2)
      else Goto (if isOct ch then 4 else 80) beginPtr s1)"

definition state81 :: "nat \<Rightarrow> nat \<Rightarrow> LexState \<Rightarrow> Outcome" where
  "state81 fuel beginPtr s =
     (let (ch, s1) = fetchNextChar s in
      if \<not> isdigit ch then accept FUNID beginPtr (retract s1)
      else if getLexemeLength beginPtr (forwardPtr s1) > 30 then
        (case lengthExceeded fuel 30 FUN_LENGTH_EXC isdigit beginPtr s1 of
           None \<Rightarrow> Diverge
         | Some (tokenNode, ch', s2) \<Rightarrow> Return (Some tokenNode) s2)
      else Goto 81 beginPtr s1)"

text \<open>
  The \<^verbatim>\<open>switch\<close>. State 2 is an empty case that breaks without changing the state;
  a state without a case prints a message and returns \<^verbatim>\<open>NULL\<close>.
\<close>

definition dfaStep :: "TrieNode \<Rightarrow> nat \<Rightarrow> nat \<Rightarrow> nat \<Rightarrow> LexState \<Rightarrow> Outcome" where
  "dfaStep keywordTrie fuel state beginPtr s =
     (if state = 0 then state0 beginPtr s
      else if state = 1 then accept ASSIGNOP beginPtr s
      else if state = 2 then Goto 2 beginPtr s
      else if state = 3 then state3 keywordTrie beginPtr s
      else if state = 4 then state4 fuel beginPtr s
      else if state = 5 then state5 beginPtr s
      else if state = 6 then state6 beginPtr s
      else if state = 7 then state7 beginPtr s
      else if state = 8 then state8 fuel beginPtr s
      else if state = 9 then state9 beginPtr s
      else if state = 19 then state19 beginPtr s
      else if state = 23 then accept SQL beginPtr s
      else if state = 24 then accept SQR beginPtr s
      else if state = 29 then accept COMMA beginPtr s
      else if state = 30 then accept SEM beginPtr s
      else if state = 31 then accept COLON beginPtr s
      else if state = 34 then accept OP beginPtr s
      else if state = 35 then accept CL beginPtr s
      else if state = 42 then accept PLUS beginPtr s
      else if state = 43 then accept MINUS beginPtr s
      else if state = 44 then accept MUL beginPtr s
      else if state = 45 then accept DIV beginPtr s
      else if state = 50 then accept AND_tk beginPtr s
      else if state = 51 then accept OR_tk beginPtr s
      else if state = 52 then accept NOT_tk beginPtr s
      else if state = 53 then state53 beginPtr s
      else if state = 54 then accept LE beginPtr s
      else if state = 55 then accept EQ beginPtr s
      else if state = 56 then state56 beginPtr s
      else if state = 57 then accept GE beginPtr s
      else if state = 58 then accept NE beginPtr s
      else if state = 59 then accept DOT beginPtr s
      else if state = 60 then state60 beginPtr s
      else if state = 61 then expect (\<lambda>ch. if isdigit ch then Some 6 else None) beginPtr s
      else if state = 62 then
        expect (\<lambda>ch. if isdigit ch then Some 64
                      else if ch = CHR ''+'' \<or> ch = CHR ''-'' then Some 63 else None) beginPtr s
      else if state = 63 then expect (\<lambda>ch. if isdigit ch then Some 64 else None) beginPtr s
      else if state = 64 then expect (\<lambda>ch. if isdigit ch then Some 7 else None) beginPtr s
      else if state = 65 then state65 fuel beginPtr s
      else if state = 66 then state66 beginPtr s
      else if state = 67 then expect (\<lambda>ch. if ch = CHR ''-'' then Some 1 else None) beginPtr s
      else if state = 68 then expect (\<lambda>ch. if ch = CHR ''='' then Some 55 else None) beginPtr s
      else if state = 69 then
        expect (\<lambda>ch. if ch = CHR ''m'' then Some 70
                      else if isalpha ch then Some 8 else None) beginPtr s
      else if state = 70 then stateMain (CHR ''a'') 71 beginPtr s
      else if state = 71 then stateMain (CHR ''i'') 72 beginPtr s
      else if state = 72 then stateMain (CHR ''n'') 19 beginPtr s
      else if state = 73 then expect (\<lambda>ch. if ch = CHR ''@'' then Some 74 else None) beginPtr s
      else if state = 74 then expect (\<lambda>ch. if ch = CHR ''@'' then Some 51 else None) beginPtr s
      else if state = 75 then expect (\<lambda>ch. if islower ch then Some 9 else None) beginPtr s
      else if state = 76 then expect (\<lambda>ch. if ch = CHR ''&'' then Some 77 else None) beginPtr s
      else if state = 77 then expect (\<lambda>ch. if ch = CHR ''&'' then Some 50 else None) beginPtr s
      else if state = 78 then expect (\<lambda>ch. if ch = CHR ''='' then Some 58 else None) beginPtr s
      else if state = 79 then state79 keywordTrie beginPtr s
      else if state = 80 then state80 fuel beginPtr s
      else if state = 81 then state81 fuel beginPtr s
      else Return None s)"

text \<open>
  The loop round the \<^verbatim>\<open>switch\<close>, with fuel: \<open>None\<close> is a run that has not returned
  within the fuel given.
\<close>

fun runDFA :: "TrieNode \<Rightarrow> nat \<Rightarrow> nat \<Rightarrow> nat \<Rightarrow> LexState \<Rightarrow> (TokenNode option \<times> LexState) option" where
  "runDFA keywordTrie 0 state beginPtr s = None"
| "runDFA keywordTrie (Suc fuel) state beginPtr s =
     (case dfaStep keywordTrie fuel state beginPtr s of
        Goto state' beginPtr' s' \<Rightarrow> runDFA keywordTrie fuel state' beginPtr' s'
      | Return r s' \<Rightarrow> Some (r, s')
      | Diverge \<Rightarrow> None)"

definition getNextToken :: "TrieNode \<Rightarrow> nat \<Rightarrow> LexState \<Rightarrow> (TokenNode option \<times> LexState) option" where
  "getNextToken keywordTrie fuel s =
     runDFA keywordTrie fuel 0 ((forwardPtr s + 1) mod (2 * BUFFER_SZ)) s"

text \<open>
  \<^verbatim>\<open>getAllTokens\<close>: the twin buffer is an uninitialised local array, so its first
  contents are a parameter, as is the value the global retract flag has on entry (it is
  initialised to false). The function returns the token list; the model also returns
  the final state, for the symbol table.
\<close>

fun tokenLoop :: "TrieNode \<Rightarrow> nat \<Rightarrow> LexState \<Rightarrow> TokenNode list \<Rightarrow> (TokenNode list \<times> LexState) option" where
  "tokenLoop keywordTrie 0 s tokenList = None"
| "tokenLoop keywordTrie (Suc fuel) s tokenList =
     (case getNextToken keywordTrie fuel s of
        None \<Rightarrow> None
      | Some (None, s') \<Rightarrow> Some (tokenList, s')
      | Some (Some tkNode, s') \<Rightarrow>
          if tokenType (entry tkNode) = DOLLAR then Some (tokenList @ [tkNode], s')
          else tokenLoop keywordTrie fuel s' (tokenList @ [tkNode]))"

definition initLexState :: "char list \<Rightarrow> (nat \<Rightarrow> char) \<Rightarrow> bool \<Rightarrow> LexState" where
  "initLexState file twinBuffer flag =
     \<lparr>fileRest = file, fileEof = False, buffer = twinBuffer, forwardPtr = 2 * BUFFER_SZ - 1,
      retractFlag = flag, lineNumber = 1, symTable = []\<rparr>"

definition getAllTokens :: "nat \<Rightarrow> char list \<Rightarrow> (nat \<Rightarrow> char) \<Rightarrow> bool \<Rightarrow> (TokenNode list \<times> LexState) option" where
  "getAllTokens fuel file twinBuffer flag =
     tokenLoop (setupKeywordTrie newTrieNode) fuel (initLexState file twinBuffer flag) []"

text \<open>
  A state in which the comment loop of state 65 cannot stop: the stream is at its end,
  so a refill only plants the sentinel, and no byte of the twin buffer is a newline.
\<close>

definition atEofNoNewline :: "LexState \<Rightarrow> bool" where
  "atEofNoNewline s = (fileEof s \<and> (\<forall>i. buffer s i \<noteq> NEWLINE))"

text \<open>
  Predicates for the interning property: a table in which no two entries have the same
  lexeme; a table that is such and only has entries appended to an earlier one; a token
  node whose entry is the one \<^verbatim>\<open>lookupToken\<close> finds for its lexeme (the end-of-input
  node apart, whose entry never enters the table).
\<close>

definition interned :: "SymbolTable \<Rightarrow> bool" where
  "interned table = distinct (map lexeme table)"

definition extends :: "SymbolTable \<Rightarrow> SymbolTable \<Rightarrow> bool" where
  "extends table table' = (interned table' \<and> (\<exists>ys. table' = table @ ys))"

definition carries :: "SymbolTable \<Rightarrow> TokenNode \<Rightarrow> bool" where
  "carries table tk =
     (tokenType (entry tk) = DOLLAR \<or> lookupToken table (lexeme (entry tk)) = Some (entry tk))"

fun okOutcome :: "SymbolTable \<Rightarrow> Outcome \<Rightarrow> bool" where
  "okOutcome table (Goto st bp s') = extends table (symTable s')"
| "okOutcome table (Return None s') = extends table (symTable s')"
| "okOutcome table (Return (Some tk) s') = (extends table (symTable s') \<and> carries (symTable s') tk)"
| "okOutcome table Diverge = True"




section \<open>Grammar, FIRST sets\<close>

text \<open>
  The enumeration \<^verbatim>\<open>NonTerminal\<close> of parserDef.h, numbered like the token kinds; only
  the start symbol and the sentinel are named here. A grammar symbol is the tagged union
  \<^verbatim>\<open>SymbolUnit\<close>; the left-hand side of a rule is always built as a non-terminal, and
  the code reads only its \<^verbatim>\<open>value.nt\<close>. A FIRST or FOLLOW set is the linked list of its
  tokens in insertion order, and \<^verbatim>\<open>AutoFirst\<close>, \<^verbatim>\<open>AutoFollow\<close> are arrays of such
  lists indexed by non-terminal. The arrays have \<open>NT_NOT_FOUND\<close> rows; the model's tables
  are total functions and put no bound on the index.
\<close>

type_synonym NonTerminal = nat

abbreviation (input) program :: NonTerminal where "program \<equiv> 0"
abbreviation (input) NT_NOT_FOUND :: NonTerminal where "NT_NOT_FOUND \<equiv> 52"

datatype SymbolUnit = NonTerm NonTerminal | Term Token

record GrammarRule =
  lhs :: NonTerminal
  rhs :: "SymbolUnit list"

type_synonym FirstFollowSet = "Token list"
type_synonym FirstFollowTable = "NonTerminal \<Rightarrow> FirstFollowSet"

definition existsInFirstFollow :: "FirstFollowSet \<Rightarrow> Token \<Rightarrow> bool" where
  "existsInFirstFollow lst tmpkey = (tmpkey \<in> set lst)"

text \<open>
  The step that \<^verbatim>\<open>computeFirstSets\<close> and \<^verbatim>\<open>computeFollowSets\<close> repeat: a token that
  the set of \<open>n\<close> does not hold yet is appended to it and the flag \<^verbatim>\<open>modified\<close> is set.
\<close>

definition addToSet :: "NonTerminal \<Rightarrow> Token \<Rightarrow> FirstFollowTable \<times> bool \<Rightarrow> FirstFollowTable \<times> bool" where
  "addToSet n tk acc =
     (case acc of (tbl, modified) \<Rightarrow>
        if \<not> existsInFirstFollow (tbl n) tk then (tbl(n := tbl n @ [tk]), True)
        else (tbl, modified))"

text \<open>
  The inner \<^verbatim>\<open>for\<close> over the nodes of a source set: the epsilon marker is passed over,
  every other token is added. In \<^verbatim>\<open>computeFirstSets\<close> the source is the list
  \<^verbatim>\<open>AutoFirst[x]\<close> as it stands when the loop starts; when \<open>x\<close> is the left-hand side
  itself the loop appends nothing (every token is already there), so the list it walks
  is that one as well.
\<close>

definition addAllButEps :: "NonTerminal \<Rightarrow> FirstFollowSet \<Rightarrow> FirstFollowTable \<times> bool \<Rightarrow> FirstFollowTable \<times> bool" where
  "addAllButEps n src acc = foldl (\<lambda>a tk. if tk = EPS then a else addToSet n tk a) acc src"

text \<open>
  The walk along one right-hand side, \<^verbatim>\<open>while (rhsItr && hasEps)\<close>: a terminal is added
  and ends the walk; a non-terminal gives its FIRST set but for epsilon, and the walk
  goes on only when that set holds epsilon; at the end of the rule epsilon is added.
\<close>

fun firstWalk :: "NonTerminal \<Rightarrow> SymbolUnit list \<Rightarrow> FirstFollowTable \<times> bool \<Rightarrow> FirstFollowTable \<times> bool" where
  "firstWalk currLhs [] acc = addToSet currLhs EPS acc"
| "firstWalk currLhs (Term t # rest) acc = addToSet currLhs t acc"
| "firstWalk currLhs (NonTerm x # rest) acc =
     (let src = fst acc x;
          acc' = addAllButEps currLhs src acc
      in if existsInFirstFollow src EPS then firstWalk currLhs rest acc' else acc')"

text \<open>One turn of \<^verbatim>\<open>while (modified)\<close>: the flag is reset and every rule is walked.\<close>

definition firstPass :: "GrammarRule list \<Rightarrow> FirstFollowTable \<Rightarrow> FirstFollowTable \<times> bool" where
  "firstPass g tbl = foldl (\<lambda>acc r. firstWalk (lhs r) (rhs r) acc) (tbl, False) g"

text \<open>
  The loop ends because the sets only grow inside a finite universe: the terminals of
  the grammar, epsilon, and what the sets of the grammar's non-terminals hold at the
  start. The measure counts, over the left-hand sides, the tokens of the universe that
  a set still lacks.
\<close>

definition terminalsOf :: "GrammarRule list \<Rightarrow> Token set" where
  "terminalsOf g = {t. \<exists>r \<in> set g. Term t \<in> set (rhs r)}"

definition nonTerminalsOf :: "GrammarRule list \<Rightarrow> NonTerminal set" where
  "nonTerminalsOf g = lhs ` set g \<union> {x. \<exists>r \<in> set g. NonTerm x \<in> set (rhs r)}"

definition universe :: "GrammarRule list \<Rightarrow> FirstFollowTable \<Rightarrow> Token set" where
  "universe g tbl = insert EPS (terminalsOf g \<union> (\<Union>x \<in> nonTerminalsOf g. set (tbl x)))"

definition missing :: "GrammarRule list \<Rightarrow> FirstFollowTable \<Rightarrow> nat" where
  "missing g tbl = (\<Sum>n \<in> lhs ` set g. card (universe g tbl - set (tbl n)))"

lemma finite_terminalsOf: "finite (terminalsOf g)"
proof -
  have "terminalsOf g \<subseteq> (\<Union>r \<in> set g. (\<lambda>s. case s of Term t \<Rightarrow> t | NonTerm _ \<Rightarrow> 0) ` set (rhs r))"
    by (force simp: terminalsOf_def)
  then show ?thesis by (rule finite_subset) simp
qed

lemma finite_nonTerminalsOf: "finite (nonTerminalsOf g)"
proof -
  have "nonTerminalsOf g \<subseteq> lhs ` set g \<union>
      (\<Union>r \<in> set g. (\<lambda>s. case s of NonTerm x \<Rightarrow> x | Term _ \<Rightarrow> 0) ` set (rhs r))"
    by (force simp: nonTerminalsOf_def)
  then show ?thesis by (rule finite_subset) simp
qed

lemma finite_universe: "finite (universe g tbl)"
  by (simp add: universe_def finite_terminalsOf finite_nonTerminalsOf)

text \<open>
  What holds all through a pass that started from \<open>tbl0\<close>: the universe is the same,
  and either the flag is set and the measure is smaller, or nothing has changed.
\<close>

definition passInv :: "GrammarRule list \<Rightarrow> FirstFollowTable \<Rightarrow> FirstFollowTable \<times> bool \<Rightarrow> bool" where
  "passInv g tbl0 acc =
     (universe g (fst acc) = universe g tbl0 \<and>
      (if snd acc then missing g (fst acc) < missing g tbl0 else fst acc = tbl0))"

lemma insert_missing:
  assumes n: "n \<in> lhs ` set g" and tk: "tk \<in> universe g tbl" and new: "tk \<notin> set (tbl n)"
  shows "universe g (tbl(n := tbl n @ [tk])) = universe g tbl"
    and "missing g (tbl(n := tbl n @ [tk])) < missing g tbl"
proof -
  let ?t = "tbl(n := tbl n @ [tk])"
  have nn: "n \<in> nonTerminalsOf g" using n by (simp add: nonTerminalsOf_def)
  have "(\<Union>x \<in> nonTerminalsOf g. set (?t x)) = insert tk (\<Union>x \<in> nonTerminalsOf g. set (tbl x))"
    using nn by (auto split: if_splits)
  then show u: "universe g ?t = universe g tbl"
    using tk by (auto simp: universe_def)
  have fin: "finite (lhs ` set g)" by simp
  have le: "card (universe g tbl - set (?t m)) \<le> card (universe g tbl - set (tbl m))" for m
    by (rule card_mono) (auto simp: finite_universe)
  have lt: "card (universe g tbl - set (?t n)) < card (universe g tbl - set (tbl n))"
    by (rule psubset_card_mono) (use tk new in \<open>auto simp: finite_universe\<close>)
  show "missing g ?t < missing g tbl"
    unfolding missing_def u
    by (rule sum_strict_mono_ex1 [OF fin]) (use le lt n in auto)
qed

lemma addToSet_inv:
  assumes "passInv g tbl0 acc" and "n \<in> lhs ` set g" and "tk \<in> universe g tbl0"
  shows "passInv g tbl0 (addToSet n tk acc)"
proof (cases acc)
  case (Pair tbl modified)
  with assms(1) have u: "universe g tbl = universe g tbl0" by (simp add: passInv_def)
  show ?thesis
  proof (cases "tk \<in> set (tbl n)")
    case True
    with Pair assms(1) show ?thesis by (simp add: addToSet_def existsInFirstFollow_def)
  next
    case False
    have le: "missing g tbl \<le> missing g tbl0"
      using assms(1) Pair by (auto simp: passInv_def split: if_splits)
    have "tk \<in> universe g tbl" using assms(3) u by simp
    from insert_missing [OF assms(2) this False] u le False Pair
    show ?thesis by (simp add: addToSet_def existsInFirstFollow_def passInv_def)
  qed
qed


lemma addAllButEps_inv:
  assumes "n \<in> lhs ` set g" and "set src \<subseteq> universe g tbl0"
  shows "passInv g tbl0 acc \<Longrightarrow> passInv g tbl0 (addAllButEps n src acc)"
  using assms(2) unfolding addAllButEps_def
proof (induction src arbitrary: acc)
  case Nil
  then show ?case by simp
next
  case (Cons tk src)
  then show ?case using addToSet_inv [OF _ assms(1), of tbl0 acc tk] by simp
qed

lemma firstWalk_inv:
  "n \<in> lhs ` set g \<Longrightarrow> passInv g tbl0 acc \<Longrightarrow> set \<alpha> \<subseteq> set (rhs r) \<Longrightarrow> r \<in> set g \<Longrightarrow>
   passInv g tbl0 (firstWalk n \<alpha> acc)"
proof (induction n \<alpha> acc rule: firstWalk.induct)
  case (1 currLhs acc)
  then show ?case using addToSet_inv [of g tbl0 acc currLhs EPS]
    by (simp add: universe_def)
next
  case (2 currLhs t rest acc)
  then have "t \<in> universe g tbl0" by (auto simp: universe_def terminalsOf_def)
  with 2 show ?case using addToSet_inv [of g tbl0 acc currLhs t] by simp
next
  case (3 currLhs x rest acc)
  then have "x \<in> nonTerminalsOf g" by (auto simp: nonTerminalsOf_def)
  then have "set (fst acc x) \<subseteq> universe g (fst acc)" by (auto simp: universe_def)
  with "3.prems"(2) have sub: "set (fst acc x) \<subseteq> universe g tbl0" by (simp add: passInv_def)
  have i: "passInv g tbl0 (addAllButEps currLhs (fst acc x) acc)"
    by (rule addAllButEps_inv [OF "3.prems"(1) sub "3.prems"(2)])
  show ?case
  proof (cases "existsInFirstFollow (fst acc x) EPS")
    case True
    with "3.IH" [OF refl refl True "3.prems"(1) i] "3.prems" show ?thesis by simp
  next
    case False
    with i show ?thesis by simp
  qed
qed

lemma foldl_firstWalk_inv:
  "passInv g tbl0 acc \<Longrightarrow> set rs \<subseteq> set g \<Longrightarrow>
   passInv g tbl0 (foldl (\<lambda>a r. firstWalk (lhs r) (rhs r) a) acc rs)"
proof (induction rs arbitrary: acc)
  case Nil
  then show ?case by simp
next
  case (Cons r rs)
  then have "passInv g tbl0 (firstWalk (lhs r) (rhs r) acc)"
    using firstWalk_inv [of "lhs r" g tbl0 acc "rhs r" r] by simp
  with Cons show ?case by simp
qed

lemma firstPass_inv: "passInv g tbl (firstPass g tbl)"
  unfolding firstPass_def by (rule foldl_firstWalk_inv) (simp_all add: passInv_def)

lemma firstPass_modified: "firstPass g tbl = (tbl', True) \<Longrightarrow> missing g tbl' < missing g tbl"
  using firstPass_inv [of g tbl] by (simp add: passInv_def)


text \<open>\<^verbatim>\<open>computeFirstSets\<close>: passes are repeated until one leaves the flag unset.\<close>

function computeFirstSets :: "GrammarRule list \<Rightarrow> FirstFollowTable \<Rightarrow> FirstFollowTable" where
  "computeFirstSets g tbl =
     (case firstPass g tbl of
        (tbl', modified) \<Rightarrow> if modified then computeFirstSets g tbl' else tbl')"
  by pat_completeness auto
termination
  by (relation "measure (\<lambda>(g, tbl). missing g tbl)") (simp_all add: firstPass_modified)

declare computeFirstSets.simps [simp del]





section \<open>Parse table\<close>

text \<open>
  \<^verbatim>\<open>getFirstOfRhs\<close>: the FIRST set of a right-hand side, built in a fresh list by the
  same walk, read off \<^verbatim>\<open>AutoFirst\<close>.
\<close>

fun firstOfRhsWalk :: "FirstFollowTable \<Rightarrow> SymbolUnit list \<Rightarrow> FirstFollowSet \<Rightarrow> FirstFollowSet" where
  "firstOfRhsWalk autoFirst [] res =
     (if \<not> existsInFirstFollow res EPS then res @ [EPS] else res)"
| "firstOfRhsWalk autoFirst (Term t # rest) res =
     (if \<not> existsInFirstFollow res t then res @ [t] else res)"
| "firstOfRhsWalk autoFirst (NonTerm x # rest) res =
     (let res' = foldl (\<lambda>r tk. if tk = EPS then r
                                 else if \<not> existsInFirstFollow r tk then r @ [tk] else r)
                       res (autoFirst x)
      in if existsInFirstFollow (autoFirst x) EPS then firstOfRhsWalk autoFirst rest res'
         else res')"

definition getFirstOfRhs :: "FirstFollowTable \<Rightarrow> SymbolUnit list \<Rightarrow> FirstFollowSet" where
  "getFirstOfRhs autoFirst grhs = firstOfRhsWalk autoFirst grhs []"

text \<open>
  A cell of the parse table is \<^verbatim>\<open>NULL\<close> or a pointer to an element of \<^verbatim>\<open>Grammar\<close>; the
  pointer is modelled by the index of the rule. The table has \<open>NT_NOT_FOUND\<close> rows and
  \<open>TK_NOT_FOUND\<close> columns; the model puts no bound on the indices.
\<close>

type_synonym ParseTable = "NonTerminal \<Rightarrow> Token \<Rightarrow> nat option"

definition multipleEntries :: string where
  "multipleEntries = ''Multiple defined entries in parse table detected! (Overwriting the rule!)''"

text \<open>
  The body of both loops of \<^verbatim>\<open>addRulesToParseTable\<close>: the message is printed when the
  cell is not \<^verbatim>\<open>NULL\<close>, and the cell is set to the rule in either case. The printed
  lines are collected in a list.
\<close>

definition setCell :: "nat \<Rightarrow> NonTerminal \<Rightarrow> ParseTable \<times> string list \<Rightarrow> Token \<Rightarrow> ParseTable \<times> string list" where
  "setCell gri n acc tk =
     (case acc of (parseTable, out) \<Rightarrow>
        (parseTable(n := (parseTable n)(tk \<mapsto> gri)),
         if parseTable n tk \<noteq> None then out @ [multipleEntries] else out))"


definition addRule ::
    "FirstFollowTable \<Rightarrow> FirstFollowTable \<Rightarrow> GrammarRule list \<Rightarrow> ParseTable \<times> string list \<Rightarrow> nat \<Rightarrow> ParseTable \<times> string list" where
  "addRule autoFirst autoFollow g acc gri =
     (let tmpRule = g ! gri;
          fOfRhs = getFirstOfRhs autoFirst (rhs tmpRule);
          acc1 = foldl (setCell gri (lhs tmpRule)) acc fOfRhs
      in if existsInFirstFollow fOfRhs EPS
         then foldl (setCell gri (lhs tmpRule)) acc1 (autoFollow (lhs tmpRule))
         else acc1)"

definition addRulesToParseTable ::
    "FirstFollowTable \<Rightarrow> FirstFollowTable \<Rightarrow> GrammarRule list \<Rightarrow> ParseTable \<times> string list \<Rightarrow> ParseTable \<times> string list" where
  "addRulesToParseTable autoFirst autoFollow g acc =
     foldl (addRule autoFirst autoFollow g) acc [0 ..< length g]"








section \<open>The parser\<close>

text \<open>
  \<^verbatim>\<open>parseTokens\<close> of \<^verbatim>\<open>parser.c\<close>. Every \<^verbatim>\<open>printf\<close> of the parser is a
  constructor of \<open>Message\<close> that carries the arguments of the format string; \<open>Line\<close> is a
  fixed text. Parse nodes live in a list, the index of a node standing for its pointer: the
  root of the tree is node 0 and \<^verbatim>\<open>createParseNode\<close> appends. The stack holds node
  indices, top first; the input is the rest of the token list, \<open>[]\<close> for the null pointer.
  The flag \<^verbatim>\<open>shouldPrint\<close> is the global of the driver that silences the diagnostics.
\<close>

datatype Message =
    Line string
  | UnrecognizedPattern int string
  | TooLongIdentifier int string
  | TooLongFunctionName int string
  | TokenMismatch int Token string Token
  | InvalidToken int Token string NonTerminal
  | InvalidAtEnd int NonTerminal
  | MismatchAtEnd int Token
  | InvalidAfterParse int Token string

record ParseNode =
  symbol :: SymbolUnit
  ste :: "SymbolTableEntry option"
  children :: "nat list"
  nodeLine :: int

record ParseState =
  nodes :: "ParseNode list"
  stack :: "nat list"
  inputPtr :: "TokenNode list"
  hasSyntaxError :: bool
  cln :: int
  printed :: "Message list"

text \<open>
  \<open>say\<close>, \<open>setLine\<close>, \<open>setSte\<close> and \<open>advance\<close> name the statements the loop body repeats in its
  branches: \<^verbatim>\<open>if (shouldPrint) printf(...)\<close>, \<^verbatim>\<open>currentNode->lineNumber = ...\<close>,
  \<^verbatim>\<open>currentNode->ste = ...\<close> and \<^verbatim>\<open>inputPtr = inputPtr->next\<close>.
\<close>

definition createParseNode :: "SymbolUnit \<Rightarrow> ParseNode" where
  "createParseNode su = \<lparr>symbol = su, ste = None, children = [], nodeLine = - 1\<rparr>"

definition epsilonEntry :: SymbolTableEntry where
  "epsilonEntry = \<lparr>lexeme = ''EPSILON'', tokenType = EPS, numericValue = 0\<rparr>"

definition lexicalMessage :: "Token \<Rightarrow> int \<Rightarrow> string \<Rightarrow> Message list" where
  "lexicalMessage tt lnum lx =
     (if tt = LEXICAL_ERROR then [UnrecognizedPattern lnum lx]
      else if tt = ID_LENGTH_EXC then [TooLongIdentifier lnum lx]
      else if tt = FUN_LENGTH_EXC then [TooLongFunctionName lnum lx]
      else [])"

definition say :: "bool \<Rightarrow> Message list \<Rightarrow> ParseState \<Rightarrow> ParseState" where
  "say shouldPrint ms ps = (if shouldPrint then ps\<lparr>printed := printed ps @ ms\<rparr> else ps)"

definition setLine :: "nat \<Rightarrow> int \<Rightarrow> ParseState \<Rightarrow> ParseState" where
  "setLine node lnum ps = ps\<lparr>nodes := (nodes ps)[node := (nodes ps ! node)\<lparr>nodeLine := lnum\<rparr>]\<rparr>"

definition setSte :: "nat \<Rightarrow> SymbolTableEntry \<Rightarrow> ParseState \<Rightarrow> ParseState" where
  "setSte node e ps = ps\<lparr>nodes := (nodes ps)[node := (nodes ps ! node)\<lparr>ste := Some e\<rparr>]\<rparr>"

definition popStack :: "ParseState \<Rightarrow> ParseState" where
  "popStack ps = ps\<lparr>stack := tl (stack ps)\<rparr>"

definition advance :: "ParseState \<Rightarrow> ParseState" where
  "advance ps = ps\<lparr>inputPtr := tl (inputPtr ps)\<rparr>"

definition expand :: "GrammarRule \<Rightarrow> nat \<Rightarrow> int \<Rightarrow> ParseState \<Rightarrow> ParseState" where
  "expand tmpRule node lnum ps =
     (let ps1 = setLine node lnum (popStack ps);
          fresh = [length (nodes ps1) ..< length (nodes ps1) + length (rhs tmpRule)];
          kids = children (nodes ps1 ! node) @ fresh
      in ps1\<lparr>nodes := (nodes ps1)[node := (nodes ps1 ! node)\<lparr>children := kids\<rparr>]
                         @ map createParseNode (rhs tmpRule),
              stack := kids @ stack ps1\<rparr>)"

text \<open>
  One iteration of the loop \<^verbatim>\<open>while (!isStackEmpty(theStack) && inputPtr)\<close>; it is only run
  on a non-empty stack and a non-empty input, and every index on the stack is an allocated
  node.
\<close>

definition parseStep ::
    "bool \<Rightarrow> ParseTable \<Rightarrow> GrammarRule list \<Rightarrow> FirstFollowTable \<Rightarrow> ParseState \<Rightarrow> ParseState" where
  "parseStep shouldPrint parseTable g autoFollow ps0 =
     (let tok = hd (inputPtr ps0);
          tt = tokenType (entry tok);
          lnum = lineNum tok;
          lx = lexeme (entry tok);
          ps = ps0\<lparr>cln := lnum\<rparr>;
          currentNode = hd (stack ps)
      in
      if tt = COMMENT \<or> tt \<ge> LEXICAL_ERROR then
        advance ((say shouldPrint (lexicalMessage tt lnum lx) ps)
                   \<lparr>hasSyntaxError := (hasSyntaxError ps \<or> tt \<noteq> COMMENT)\<rparr>)
      else
        (case symbol (nodes ps ! currentNode) of
           Term t \<Rightarrow>
             if t = EPS then popStack (setSte currentNode epsilonEntry (setLine currentNode lnum ps))
             else if t = tt then
               advance (popStack (setSte currentNode (entry tok) (setLine currentNode lnum ps)))
             else
               popStack (setLine currentNode lnum
                 (say shouldPrint [TokenMismatch lnum tt lx t] (ps\<lparr>hasSyntaxError := True\<rparr>)))
         | NonTerm n \<Rightarrow>
             (case parseTable n tt of
                None \<Rightarrow>
                  (let ps1 = say shouldPrint [InvalidToken lnum tt lx n] (ps\<lparr>hasSyntaxError := True\<rparr>)
                   in if existsInFirstFollow (autoFollow n) tt then
                        popStack (setLine currentNode lnum ps1)
                      else
                        (let ps2 = advance ps1
                         in if inputPtr ps2 = [] then popStack ps2 else ps2))
              | Some gri \<Rightarrow> expand (g ! gri) currentNode lnum ps)))"

text \<open>The loop, with fuel: \<open>None\<close> is a loop that has not ended within the fuel.\<close>

fun parseLoop ::
    "bool \<Rightarrow> ParseTable \<Rightarrow> GrammarRule list \<Rightarrow> FirstFollowTable \<Rightarrow> nat \<Rightarrow> ParseState \<Rightarrow> ParseState option" where
  "parseLoop shouldPrint parseTable g autoFollow 0 ps = None"
| "parseLoop shouldPrint parseTable g autoFollow (Suc fuel) ps =
     (if stack ps \<noteq> [] \<and> inputPtr ps \<noteq> [] then
        parseLoop shouldPrint parseTable g autoFollow fuel (parseStep shouldPrint parseTable g autoFollow ps)
      else Some ps)"

text \<open>The code after the loop: the success message, or the emptying of stack and input.\<close>

definition drain :: "bool \<Rightarrow> ParseState \<Rightarrow> ParseState" where
  "drain shouldPrint ps =
     (if \<not> hasSyntaxError ps \<and> stack ps = [] \<and>
         (inputPtr ps = [] \<or> tokenType (entry (hd (inputPtr ps))) = DOLLAR) then
        say shouldPrint [Line ''Parsing successful! No syntax errors! The input is syntactically correct!''] ps
      else
        (let ps1 = say shouldPrint
                     (map (\<lambda>node. case symbol (nodes ps ! node) of
                                      NonTerm n \<Rightarrow> InvalidAtEnd (cln ps) n
                                    | Term t \<Rightarrow> MismatchAtEnd (cln ps) t) (stack ps))
                     (ps\<lparr>hasSyntaxError := True, stack := []\<rparr>);
             isLeft = (\<lambda>tok. tokenType (entry tok) \<noteq> DOLLAR);
             ps2 = say shouldPrint
                     (map (\<lambda>tok. InvalidAfterParse (lineNum tok) (tokenType (entry tok)) (lexeme (entry tok)))
                          (takeWhile isLeft (inputPtr ps1)))
                     (ps1\<lparr>inputPtr := dropWhile isLeft (inputPtr ps1)\<rparr>)
         in say shouldPrint [Line ''The input file has syntactic errors!''] ps2))"

definition parseTokens ::
    "bool \<Rightarrow> ParseTable \<Rightarrow> GrammarRule list \<Rightarrow> FirstFollowTable \<Rightarrow> nat \<Rightarrow> TokenNode list \<Rightarrow> bool \<Rightarrow> Message list \<Rightarrow> ParseState option" where
  "parseTokens shouldPrint parseTable g autoFollow fuel tokensFromLexer hasError out =
     map_option (drain shouldPrint)
       (parseLoop shouldPrint parseTable g autoFollow fuel
          (say shouldPrint [Line ''Parsing starting...'']
             \<lparr>nodes = [createParseNode (NonTerm program)], stack = [0], inputPtr = tokensFromLexer,
              hasSyntaxError = hasError, cln = 1, printed = out\<rparr>))"

text \<open>
  A token the loop hands to the stack: neither a comment nor one of the error kinds that the
  first branch of the loop skips.
\<close>

definition ordinary :: "TokenNode \<Rightarrow> bool" where
  "ordinary tok = (tokenType (entry tok) \<noteq> COMMENT \<and> tokenType (entry tok) < LEXICAL_ERROR)"

definition mismatchState :: ParseState where
  "mismatchState =
     \<lparr>nodes = [createParseNode (NonTerm program), createParseNode (Term ID), createParseNode (Term SEM)],
      stack = [1, 2],
      inputPtr = [newTokenNode (newSymbolTableEntry ''5'' NUM 5) 3,
                  newTokenNode (newSymbolTableEntry '';'' SEM 0) 3],
      hasSyntaxError = False, cln = 1, printed = []\<rparr>"

definition recoveryFollow :: FirstFollowTable where
  "recoveryFollow = (\<lambda>_. [])(program := [SEM])"

definition recoveryState :: ParseState where
  "recoveryState =
     \<lparr>nodes = [createParseNode (NonTerm program)],
      stack = [0],
      inputPtr = [newTokenNode (newSymbolTableEntry ''5'' NUM 5) 1,
                  newTokenNode (newSymbolTableEntry ''b2'' ID 0) 2,
                  newTokenNode (newSymbolTableEntry '';'' SEM 0) 2,
                  newTokenNode (newSymbolTableEntry [] DOLLAR 0) 3],
      hasSyntaxError = False, cln = 1, printed = []\<rparr>"

section \<open>FOLLOW sets and the driver of the parser\<close>

text \<open>
  \<^verbatim>\<open>computeFollowSets\<close>: for every non-terminal occurrence in a right-hand side, FIRST of the
  rest of the rule (but for epsilon) is added to its FOLLOW set, and FOLLOW of the left-hand
  side as well when that FIRST set holds epsilon or nothing follows. The loop
  \<^verbatim>\<open>while (modified)\<close> is given fuel.
\<close>

fun followWalk ::
    "FirstFollowTable \<Rightarrow> NonTerminal \<Rightarrow> SymbolUnit list \<Rightarrow> FirstFollowTable \<times> bool \<Rightarrow> FirstFollowTable \<times> bool" where
  "followWalk autoFirst currLhs [] acc = acc"
| "followWalk autoFirst currLhs (Term t # rest) acc = followWalk autoFirst currLhs rest acc"
| "followWalk autoFirst currLhs (NonTerm x # rest) acc =
     (let fOfNxtT = getFirstOfRhs autoFirst rest;
          acc1 = addAllButEps x fOfNxtT acc;
          acc2 = (if existsInFirstFollow fOfNxtT EPS \<or> rest = []
                  then foldl (\<lambda>a tk. addToSet x tk a) acc1 (fst acc1 currLhs)
                  else acc1)
      in followWalk autoFirst currLhs rest acc2)"

definition followPass :: "FirstFollowTable \<Rightarrow> GrammarRule list \<Rightarrow> FirstFollowTable \<Rightarrow> FirstFollowTable \<times> bool" where
  "followPass autoFirst g tbl = foldl (\<lambda>acc r. followWalk autoFirst (lhs r) (rhs r) acc) (tbl, False) g"

fun followLoop :: "nat \<Rightarrow> FirstFollowTable \<Rightarrow> GrammarRule list \<Rightarrow> FirstFollowTable \<Rightarrow> FirstFollowTable option" where
  "followLoop 0 autoFirst g tbl = None"
| "followLoop (Suc fuel) autoFirst g tbl =
     (case followPass autoFirst g tbl of
        (tbl', modified) \<Rightarrow> if modified then followLoop fuel autoFirst g tbl' else Some tbl')"

definition computeFollowSets :: "nat \<Rightarrow> FirstFollowTable \<Rightarrow> GrammarRule list \<Rightarrow> FirstFollowTable \<Rightarrow> FirstFollowTable option" where
  "computeFollowSets fuel autoFirst g tbl = followLoop fuel autoFirst g (tbl(program := tbl program @ [DOLLAR]))"

text \<open>
  The globals of \<^verbatim>\<open>parser.c\<close> that the driver functions read and write, with the lines
  printed on the console so far. The parse table is the field \<open>theParseTable\<close>.
\<close>

record Globals =
  grammarLoaded :: bool
  Grammar :: "GrammarRule list"
  firstFollowComputed :: bool
  AutoFirst :: FirstFollowTable
  AutoFollow :: FirstFollowTable
  parseTreeInitialized :: bool
  theParseTable :: ParseTable
  console :: "Message list"

definition initialGlobals :: Globals where
  "initialGlobals =
     \<lparr>grammarLoaded = False, Grammar = [], firstFollowComputed = False,
      AutoFirst = (\<lambda>_. []), AutoFollow = (\<lambda>_. []),
      parseTreeInitialized = False, theParseTable = (\<lambda>_ _. None), console = []\<rparr>"

text \<open>
  How a call ends: it returns a value, or the process ends in \<^verbatim>\<open>exit(status)\<close> with the
  lines printed so far.
\<close>

datatype 'a Proc = Returns 'a | Exits int "Message list"

text \<open>
  \<^verbatim>\<open>readGrammar\<close>. The argument is the outcome of \<^verbatim>\<open>fopen("src/parser/grammar.txt", "r")\<close>:
  \<open>None\<close> when the file cannot be opened, else the rules its lines hold (the splitting of a
  line into symbol names is not modelled). Allocation failures are not modelled.
\<close>

definition readGrammar :: "GrammarRule list option \<Rightarrow> Globals \<Rightarrow> Globals" where
  "readGrammar fp G =
     (if grammarLoaded G then G
      else
        (let G1 = G\<lparr>grammarLoaded := True\<rparr>
         in case fp of
              None \<Rightarrow> G1\<lparr>console := console G1 @ [Line ''Could not open grammar file'']\<rparr>
            | Some rules \<Rightarrow> G1\<lparr>Grammar := Grammar G1 @ rules\<rparr>))"

definition initializeAndComputeFirstAndFollow :: "nat \<Rightarrow> Globals \<Rightarrow> Globals option" where
  "initializeAndComputeFirstAndFollow fuel G =
     (if firstFollowComputed G then Some G
      else
        (let autoFirst = computeFirstSets (Grammar G) (\<lambda>_. [])
         in case computeFollowSets fuel autoFirst (Grammar G) (\<lambda>_. []) of
              None \<Rightarrow> None
            | Some autoFollow \<Rightarrow>
                Some (G\<lparr>firstFollowComputed := True, AutoFirst := autoFirst, AutoFollow := autoFollow\<rparr>)))"

definition initializeParseTable :: "Globals \<Rightarrow> Globals" where
  "initializeParseTable G =
     (if parseTreeInitialized G then G
      else
        (case addRulesToParseTable (AutoFirst G) (AutoFollow G) (Grammar G) (\<lambda>_ _. None, []) of
           (tbl, out) \<Rightarrow>
             G\<lparr>parseTreeInitialized := True, theParseTable := tbl,
               console := console G @ map Line out\<rparr>))"

text \<open>
  \<^verbatim>\<open>lexInput\<close> of \<^verbatim>\<open>lexer.c\<close>, which \<^verbatim>\<open>parseInputSourceCode\<close> calls on the opened
  input file; \<^verbatim>\<open>getAllTokens\<close> prints a line when its loop ends without the end marker.
\<close>

definition lexInput ::
    "nat \<Rightarrow> char list option \<Rightarrow> (nat \<Rightarrow> char) \<Rightarrow> bool \<Rightarrow> Globals \<Rightarrow> (TokenNode list \<times> Globals) Proc option" where
  "lexInput fuel fp twinBuffer flag G =
     (case fp of
        None \<Rightarrow> Some (Exits (- 1) (console G @ [Line ''Error: Input file not found for lexical analysis'']))
      | Some file \<Rightarrow>
          (case getAllTokens fuel file twinBuffer flag of
             None \<Rightarrow> None
           | Some (tokens, s) \<Rightarrow>
               Some (Returns (tokens,
                 if tokens = [] \<or> tokenType (entry (last tokens)) \<noteq> DOLLAR
                 then G\<lparr>console := console G @ [Line ''No token retrieved'']\<rparr> else G))))"

text \<open>
  The output file is the printed parse tree or the fixed text about syntax errors.
\<close>

datatype OutFile = ParseTreeFile "ParseNode list" | SyntaxErrorsFile

definition printParseTree :: "bool \<Rightarrow> ParseNode list \<Rightarrow> Globals \<Rightarrow> Globals \<times> OutFile option" where
  "printParseTree shouldPrint PT G =
     (if shouldPrint
      then G\<lparr>console := console G @ [Line ''Printing Parse Tree in the specified file...'',
                                       Line ''Printing parse tree completed...'']\<rparr>
      else G,
      Some (ParseTreeFile PT))"

text \<open>
  \<^verbatim>\<open>parseInputSourceCode\<close>: \<open>inpFile\<close> and \<open>grammarFile\<close> are the outcomes of opening the two
  files. One fuel bounds each of the loops.
\<close>

definition parseInputSourceCode ::
    "bool \<Rightarrow> nat \<Rightarrow> char list option \<Rightarrow> GrammarRule list option \<Rightarrow> (nat \<Rightarrow> char) \<Rightarrow> bool \<Rightarrow> Globals
       \<Rightarrow> (Globals \<times> OutFile option) Proc option" where
  "parseInputSourceCode shouldPrint fuel inpFile grammarFile twinBuffer flag G =
     (case inpFile of
        None \<Rightarrow> Some (Returns (G\<lparr>console := console G @ [Line ''Could not open input file for parsing'']\<rparr>, None))
      | Some file \<Rightarrow>
          (case lexInput fuel (Some file) twinBuffer flag G of
             None \<Rightarrow> None
           | Some (Exits status out) \<Rightarrow> Some (Exits status out)
           | Some (Returns (tokensFromLexer, G1)) \<Rightarrow>
               (case initializeAndComputeFirstAndFollow fuel (readGrammar grammarFile G1) of
                  None \<Rightarrow> None
                | Some G2 \<Rightarrow>
                    (let G3 = initializeParseTable G2
                     in case parseTokens shouldPrint (theParseTable G3) (Grammar G3) (AutoFollow G3)
                               fuel tokensFromLexer False (console G3) of
                          None \<Rightarrow> None
                        | Some ps \<Rightarrow>
                            (let G4 = G3\<lparr>console := printed ps\<rparr>
                             in if \<not> hasSyntaxError ps then Some (Returns (printParseTree shouldPrint (nodes ps) G4))
                                else Some (Returns (G4, Some SyntaxErrorsFile)))))))"

(* ---- theorems ---- *)

section \<open>The lexer on the empty input\<close>

lemma fetch_empty_file:
  "fetchNextChar (initLexState [] twinBuffer False) =
     (NUL, \<lparr>fileRest = [], fileEof = True, buffer = twinBuffer(0 := NUL), forwardPtr = 0,
            retractFlag = False, lineNumber = 1, symTable = []\<rparr>)"
  by (simp add: fetchNextChar_def refill_def initLexState_def Let_def fun_upd_def)

lemma state0_NUL:
  "fetchNextChar s = (NUL, s1) \<Longrightarrow>
   state0 beginPtr s = Return (Some (newTokenNode (newSymbolTableEntry [] DOLLAR 0) (lineNumber s1))) s1"
  by (simp add: state0_def isdigit_def isBD_def)

text \<open>
  Claim C10. On the empty file, whatever the uninitialised twin buffer holds,
  \<^verbatim>\<open>getAllTokens\<close> returns (with any fuel of at least two turns) the list of exactly one
  token: the end-of-input token, with the empty lexeme and line 1. Its entry is built by
  \<^verbatim>\<open>newSymbolTableEntry\<close> without a lookup, and the symbol table is still empty.
\<close>

theorem empty_input_single_eof_token:
  "getAllTokens (Suc (Suc fuel)) [] twinBuffer False =
     Some ([\<lparr>entry = \<lparr>lexeme = [], tokenType = DOLLAR, numericValue = 0\<rparr>, lineNum = 1\<rparr>],
           \<lparr>fileRest = [], fileEof = True, buffer = twinBuffer(0 := NUL), forwardPtr = 0,
            retractFlag = False, lineNumber = 1, symTable = []\<rparr>)"
  by (simp add: getAllTokens_def getNextToken_def dfaStep_def state0_NUL [OF fetch_empty_file]
      newTokenNode_def newSymbolTableEntry_def)

section \<open>A comment that no newline ends\<close>

lemma fetch_atEofNoNewline:
  assumes "atEofNoNewline s" and "fetchNextChar s = (ch, s')"
  shows "atEofNoNewline s' \<and> ch \<noteq> NEWLINE"
  using assms
  by (auto simp: atEofNoNewline_def fetchNextChar_def Let_def split: if_splits)

lemma skipWhile_never_returns:
  "atEofNoNewline s \<Longrightarrow> ch \<noteq> NEWLINE \<Longrightarrow> skipWhile fuel (\<lambda>c. c \<noteq> NEWLINE) ch s = None"
proof (induction fuel arbitrary: ch s)
  case 0
  then show ?case by simp
next
  case (Suc fuel)
  obtain ch' s' where f: "fetchNextChar s = (ch', s')" by (cases "fetchNextChar s")
  from fetch_atEofNoNewline [OF Suc.prems(1) f] Suc.IH [of s' ch'] Suc.prems(2) f
  show ?case by simp
qed

lemma state65_diverges:
  assumes "atEofNoNewline s"
  shows "state65 fuel beginPtr s = Diverge"
proof -
  obtain e table where i: "internEntry (extractLexeme beginPtr s) COMMENT 0 (symTable s) = (e, table)"
    by (cases "internEntry (extractLexeme beginPtr s) COMMENT 0 (symTable s)")
  obtain ch s1 where f: "fetchNextChar (s\<lparr>symTable := table\<rparr>) = (ch, s1)"
    by (cases "fetchNextChar (s\<lparr>symTable := table\<rparr>)")
  have "atEofNoNewline (s\<lparr>symTable := table\<rparr>)"
    using assms by (simp add: atEofNoNewline_def)
  from fetch_atEofNoNewline [OF this f] have "skipWhile fuel (\<lambda>c. c \<noteq> NEWLINE) ch s1 = None"
    by (simp add: skipWhile_never_returns)
  then show ?thesis using i f by (simp add: state65_def)
qed

lemma fetch_percent_file:
  "fetchNextChar (initLexState ''%'' twinBuffer False) =
     (CHR ''%'', \<lparr>fileRest = [], fileEof = True,
        buffer = (\<lambda>i. if i = 0 then CHR ''%'' else twinBuffer i)(1 := NUL), forwardPtr = 0,
        retractFlag = False, lineNumber = 1, symTable = []\<rparr>)"
  by (simp add: fetchNextChar_def refill_def initLexState_def Let_def fun_eq_iff)

lemma state0_percent:
  "fetchNextChar s = (CHR ''%'', s1) \<Longrightarrow> state0 beginPtr s = Goto 65 beginPtr s1"
  by (simp add: state0_def isdigit_def)

lemma getNextToken_percent_diverges:
  assumes "\<forall>i. twinBuffer i \<noteq> NEWLINE"
  shows "getNextToken kt fuel (initLexState ''%'' twinBuffer False) = None"
proof (cases fuel)
  case 0
  then show ?thesis by (simp add: getNextToken_def)
next
  case (Suc n)
  let ?s1 = "\<lparr>fileRest = [], fileEof = True,
        buffer = (\<lambda>i. if i = 0 then CHR ''%'' else twinBuffer i)(1 := NUL), forwardPtr = 0,
        retractFlag = False, lineNumber = 1, symTable = []\<rparr>"
  have inv: "atEofNoNewline ?s1" using assms by (simp add: atEofNoNewline_def)
  have "runDFA kt n 65 b ?s1 = None" for b
  proof (cases n)
    case 0
    then show ?thesis by simp
  next
    case (Suc m)
    have "dfaStep kt m 65 b ?s1 = Diverge"
      unfolding dfaStep_def using state65_diverges [OF inv] by simp
    then show ?thesis unfolding Suc runDFA.simps by simp
  qed
  then show ?thesis
    using Suc by (simp add: getNextToken_def dfaStep_def state0_percent [OF fetch_percent_file])
qed

text \<open>
  Claim C9 (the code does not do what the claim says). The file holds the single byte
  \<open>%\<close>: a comment whose line is not ended by a newline. When the uninitialised twin
  buffer holds no newline byte, \<^verbatim>\<open>getAllTokens\<close> returns with no amount of fuel: the
  loop of state 65 reads on past the sentinel, round and round the buffer.
\<close>

theorem unterminated_comment_never_returns:
  "(\<forall>i. twinBuffer i \<noteq> NEWLINE) \<Longrightarrow> getAllTokens fuel ''%'' twinBuffer False = None"
  by (cases fuel) (simp_all add: getAllTokens_def getNextToken_percent_diverges)

theorem unterminated_comment_never_returns_witness:
  "(\<forall>i. (\<lambda>_. NUL) i \<noteq> NEWLINE) \<and> (\<forall>fuel. getAllTokens fuel ''%'' (\<lambda>_. NUL) False = None)"
  using unterminated_comment_never_returns [of "\<lambda>_. NUL"] by simp

section \<open>Interning of lexemes\<close>

lemma extends_refl: "interned table \<Longrightarrow> extends table table"
  by (simp add: extends_def)


lemma lookup_Some: "lookupToken table lx = Some e \<Longrightarrow> e \<in> set table \<and> lexeme e = lx"
  by (auto simp: lookupToken_def find_Some_iff)

lemma lookup_self:
  "interned table \<Longrightarrow> e \<in> set table \<Longrightarrow> lookupToken table (lexeme e) = Some e"
proof (induction table)
  case Nil
  then show ?case by simp
next
  case (Cons a table)
  then show ?case
    by (cases "a = e") (auto simp: lookupToken_def interned_def)
qed

lemma internEntry_extends:
  assumes "interned table" and "internEntry lx tk v table = (e, table')"
  shows "extends table table' \<and> carries table' (newTokenNode e lnum)"
proof (cases "lookupToken table lx")
  case None
  then have fresh: "lx \<notin> lexeme ` set table"
    by (auto simp: lookupToken_def find_None_iff)
  from None assms(2) have t': "table' = table @ [e]" and e: "e = newSymbolTableEntry lx tk v"
    by (auto simp: internEntry_def addToken_def Let_def)
  have lx: "lexeme e = lx" by (simp add: e newSymbolTableEntry_def)
  have int: "interned table'" using assms(1) fresh by (simp add: t' interned_def lx)
  have "lookupToken table' (lexeme e) = Some e" by (rule lookup_self [OF int]) (simp add: t')
  then show ?thesis using int by (simp add: extends_def t' carries_def newTokenNode_def)
next
  case (Some a)
  with assms(2) have eq: "table' = table" "e = a" by (auto simp: internEntry_def)
  from lookup_Some [OF Some] have "lookupToken table (lexeme a) = Some a"
    using Some by simp
  then show ?thesis using assms(1) by (simp add: extends_def eq carries_def newTokenNode_def)
qed

lemma fetch_symTable: "fetchNextChar s = (ch, s1) \<Longrightarrow> symTable s1 = symTable s"
  by (auto simp: fetchNextChar_def refill_def Let_def split: if_splits)

lemma retract_symTable [simp]: "symTable (retract s) = symTable s"
  by (simp add: retract_def Let_def)

lemma retract2_symTable [simp]: "symTable (retract2 s) = symTable s"
  by (simp add: retract2_def Let_def)

lemma skipWhile_symTable:
  "skipWhile fuel P ch s = Some (ch', s') \<Longrightarrow> symTable s' = symTable s"
proof (induction fuel arbitrary: ch s)
  case 0
  then show ?case by (simp split: if_splits)
next
  case (Suc fuel)
  show ?case
  proof (cases "P ch")
    case True
    obtain c1 s1 where f: "fetchNextChar s = (c1, s1)" by (cases "fetchNextChar s")
    with Suc.prems True have "skipWhile fuel P c1 s1 = Some (ch', s')" by simp
    from Suc.IH [OF this] fetch_symTable [OF f] show ?thesis by simp
  next
    case False
    with Suc.prems show ?thesis by simp
  qed
qed

lemma ok_acceptWith:
  assumes "interned (symTable s)"
  shows "okOutcome (symTable s) (acceptWith kind val beginPtr s)"
proof -
  let ?lx = "extractLexeme beginPtr s"
  obtain e table' where i: "internEntry ?lx (kind ?lx) (val ?lx) (symTable s) = (e, table')"
    by (cases "internEntry ?lx (kind ?lx) (val ?lx) (symTable s)")
  from internEntry_extends [OF assms i, of "lineNumber s"]
  show ?thesis by (simp add: acceptWith_def i)
qed

lemma ok_accept_after:
  assumes "interned (symTable s)" and "symTable s' = symTable s"
  shows "okOutcome (symTable s) (accept tk beginPtr s')"
    and "okOutcome (symTable s) (acceptWith kind val beginPtr s')"
  using ok_acceptWith [of s'] assms by (simp_all add: accept_def)


lemma ok_lengthExceeded:
  assumes "interned (symTable s)"
    and "lengthExceeded fuel cap tk skip beginPtr s = Some (tokenNode, ch', s2)"
  shows "extends (symTable s) (symTable s2) \<and> carries (symTable s2) tokenNode"
proof -
  let ?lx = "take cap (extractLexeme beginPtr s) @ ''...''"
  obtain e table where i: "internEntry ?lx tk 0 (symTable s) = (e, table)"
    by (cases "internEntry ?lx tk 0 (symTable s)")
  obtain ch s1 where f: "fetchNextChar (s\<lparr>symTable := table\<rparr>) = (ch, s1)"
    by (cases "fetchNextChar (s\<lparr>symTable := table\<rparr>)")
  from assms(2) i f obtain s3 where
    sk: "skipWhile fuel skip ch s1 = Some (ch', s3)" and s2: "s2 = retract s3"
    and tn: "tokenNode = newTokenNode e (lineNumber s)"
    by (auto simp: lengthExceeded_def split: option.splits)
  have "symTable s2 = table"
    using skipWhile_symTable [OF sk] fetch_symTable [OF f] by (simp add: s2)
  with internEntry_extends [OF assms(1) i, of "lineNumber s"] show ?thesis
    by (simp add: tn)
qed



lemma ok_capped_states:
  assumes "interned (symTable s)"
  shows "okOutcome (symTable s) (state4 fuel beginPtr s)"
    and "okOutcome (symTable s) (state8 fuel beginPtr s)"
    and "okOutcome (symTable s) (state80 fuel beginPtr s)"
    and "okOutcome (symTable s) (state81 fuel beginPtr s)"
proof -
  obtain ch s1 where f: "fetchNextChar s = (ch, s1)" by (cases "fetchNextChar s")
  note st = fetch_symTable [OF f]
  have r1: "symTable (retract s1) = symTable s" using st by simp
  have i1: "interned (symTable s1)" using assms st by simp
  note acc = ok_accept_after [OF assms r1]
  have le: "okOutcome (symTable s)
      (case lengthExceeded fuel cap tk skip beginPtr s1 of
         None \<Rightarrow> Diverge
       | Some (tokenNode, ch', s2) \<Rightarrow>
           if P ch' then Goto st' beginPtr s2 else Return (Some tokenNode) s2)"
    for cap tk skip P st'
    using ok_lengthExceeded [OF i1, of fuel cap tk skip beginPtr] st
    by (auto split: option.splits)
  show "okOutcome (symTable s) (state4 fuel beginPtr s)"
    using assms st acc le by (simp add: state4_def f extends_refl)
  show "okOutcome (symTable s) (state8 fuel beginPtr s)"
    using assms st acc le by (simp add: state8_def f extends_refl)
  show "okOutcome (symTable s) (state80 fuel beginPtr s)"
    using assms st acc le by (simp add: state80_def f extends_refl)
  have le81: "okOutcome (symTable s)
      (case lengthExceeded fuel cap tk skip beginPtr s1 of
         None \<Rightarrow> Diverge
       | Some (tokenNode, ch', s2) \<Rightarrow> Return (Some tokenNode) s2)"
    for cap tk skip
    using ok_lengthExceeded [OF i1, of fuel cap tk skip beginPtr] st
    by (auto split: option.splits)
  show "okOutcome (symTable s) (state81 fuel beginPtr s)"
    using assms st acc le81 by (simp add: state81_def f extends_refl)
qed


lemma t1: "interned (symTable s) \<Longrightarrow> okOutcome (symTable s) (state81 fuel beginPtr s)"
  by (simp add: ok_capped_states)

lemma t2: "interned (symTable s) \<Longrightarrow> okOutcome (symTable s) (accept 5 beginPtr s)"
  by (simp add: ok_accept_after(1))









lemma runDFA_numeral:
  "runDFA kt (numeral k) st bp s =
     (case dfaStep kt (pred_numeral k) st bp s of
        Goto st' bp' s' \<Rightarrow> runDFA kt (pred_numeral k) st' bp' s'
      | Return r s' \<Rightarrow> Some (r, s')
      | Diverge \<Rightarrow> None)"
  by (simp add: numeral_eq_Suc)

lemma tokenLoop_numeral:
  "tokenLoop kt (numeral k) s tokenList =
     (case getNextToken kt (pred_numeral k) s of
        None \<Rightarrow> None
      | Some (None, s') \<Rightarrow> Some (tokenList, s')
      | Some (Some tkNode, s') \<Rightarrow>
          if tokenType (entry tkNode) = DOLLAR then Some (tokenList @ [tkNode], s')
          else tokenLoop kt (pred_numeral k) s' (tokenList @ [tkNode]))"
  by (simp add: numeral_eq_Suc)

lemmas lex_eval =
  dfaStep_def state0_def state3_def state4_def state5_def state6_def state7_def state60_def
  state79_def state80_def expect_def
  acceptWith_def accept_def internEntry_def lookupToken_def addToken_def newTokenNode_def
  newSymbolTableEntry_def fetchNextChar_def refill_def retract_def retract2_def
  extractLexeme_def getLexemeLength_def isdigit_def isBD_def isOct_def islower_def isalpha_def
  initLexState_def getNextToken_def Let_def runDFA_numeral tokenLoop_numeral upt_rec



section \<open>Numeric values of literals\<close>

lemma expOf_example: "expOf ''1.23E05'' = 533"
  by (simp add: expOf_def pointIdx_def charAt_def isdigit_def code_def Let_def)

lemma realVal_example: "realVal ''1.23E05'' = 123 / 100"
  by (simp add: realVal_def numVal_def pointIdx_def charAt_def digitVal_def code_def Let_def)

text \<open>
  The integer literal and the real literal without an exponent get the values the
  specification gives (in real arithmetic).
\<close>

lemma literals_without_exponent:
  "map_option (\<lambda>(ts, s). map (\<lambda>t. (lexeme (entry t), tokenType (entry t), numericValue (entry t))) ts)
     (getAllTokens 20 ''123 4.56'' twinBuffer False)
   = Some [(''123'', NUM, 123), (''4.56'', RNUM, 456 / 100), ([], DOLLAR, 0)]"
  by (simp add: getAllTokens_def lex_eval realVal_def numVal_def pointIdx_def charAt_def
      digitVal_def code_def)

text \<open>
  Claim C3 (the code does not do what the claim says). For the literal \<open>1.23E05\<close>
  state 7 multiplies the character codes of the exponent digits without subtracting
  the code of \<open>0\<close>: the exponent is \<open>48 * 10 + 53 = 533\<close>, not 5, and the value stored
  is \<open>1.23 * 10 ^ 533\<close>, not \<open>123000\<close>.
\<close>

theorem real_literal_exponent_not_decoded:
  "expOf ''1.23E05'' = 533 \<and>
   map_option fst (getNextToken keywordTrie 20 (initLexState ''1.23E05'' twinBuffer False)) =
     Some (Some \<lparr>entry = \<lparr>lexeme = ''1.23E05'', tokenType = RNUM,
                            numericValue = 123 / 100 * 10 ^ 533\<rparr>, lineNum = 1\<rparr>)"
  by (simp add: lex_eval realExpVal_def expOf_example realVal_example pow10_def)

section \<open>The length cap of variable identifiers\<close>































section \<open>FIRST sets are a fixed point\<close>



















section \<open>Construction of the parse table\<close>



lemma foldl_setCell_append:
  "foldl (setCell gri n) (foldl (setCell gri n) acc ts) us = foldl (setCell gri n) acc (ts @ us)"
  by simp











section \<open>Error recovery of the parser\<close>

lemmas parse_ops = say_def setLine_def setSte_def popStack_def advance_def

text \<open>
  Claim C5. When the stack top is a terminal \<open>t\<close> (not the epsilon marker) and the current
  token is an ordinary token of another kind, one iteration of the parser loop sets the error
  flag, prints (when printing is on) exactly one message that carries the line number, the
  kind and the lexeme of the token and the expected terminal \<open>t\<close>, records the line in the
  node, and pops the stack; the input is not advanced, so the next iteration meets the same
  token with the next stack top.
\<close>

theorem terminal_mismatch_pops_without_consuming:
  assumes "stack ps = cur # stk" and "inputPtr ps = tok # rest"
    and "symbol (nodes ps ! cur) = Term t" and "t \<noteq> EPS"
    and "ordinary tok" and "t \<noteq> tokenType (entry tok)"
  shows "parseStep shouldPrint parseTable g autoFollow ps =
           ps\<lparr>cln := lineNum tok,
              hasSyntaxError := True,
              printed := printed ps @
                (if shouldPrint
                 then [TokenMismatch (lineNum tok) (tokenType (entry tok)) (lexeme (entry tok)) t]
                 else []),
              nodes := (nodes ps)[cur := (nodes ps ! cur)\<lparr>nodeLine := lineNum tok\<rparr>],
              stack := stk\<rparr> \<and>
         inputPtr (parseStep shouldPrint parseTable g autoFollow ps) = tok # rest \<and>
         stack (parseStep shouldPrint parseTable g autoFollow ps) = stk"
  using assms by (simp add: parseStep_def Let_def ordinary_def parse_ops)

text \<open>
  An instance: \<^verbatim>\<open>TK_ID\<close> is expected, the number \<^verbatim>\<open>5\<close> of line 3 is seen; the node
  of \<^verbatim>\<open>TK_ID\<close> is popped and \<^verbatim>\<open>5\<close> stays the current token.
\<close>

theorem terminal_mismatch_pops_without_consuming_witness:
  "parseStep True (\<lambda>_ _. None) [] (\<lambda>_. []) mismatchState =
     \<lparr>nodes = [createParseNode (NonTerm program),
               (createParseNode (Term ID))\<lparr>nodeLine := 3\<rparr>,
               createParseNode (Term SEM)],
      stack = [2],
      inputPtr = [newTokenNode (newSymbolTableEntry ''5'' NUM 5) 3,
                  newTokenNode (newSymbolTableEntry '';'' SEM 0) 3],
      hasSyntaxError = True, cln = 3,
      printed = [TokenMismatch 3 NUM ''5'' ID]\<rparr>"
  using terminal_mismatch_pops_without_consuming
    [of mismatchState 1 "[2]" "newTokenNode (newSymbolTableEntry ''5'' NUM 5) 3"
        "[newTokenNode (newSymbolTableEntry '';'' SEM 0) 3]" ID True "\<lambda>_ _. None" "[]" "\<lambda>_. []"]
  by (simp add: mismatchState_def ordinary_def newTokenNode_def newSymbolTableEntry_def createParseNode_def)

text \<open>
  A token that has no entry in the row of the non-terminal on top and is not in its FOLLOW set
  is discarded; if it was the last token of the input, the non-terminal is popped as well.
\<close>

lemma discard_step:
  assumes "stack ps = cur # stk" and "symbol (nodes ps ! cur) = NonTerm n"
    and "inputPtr ps = t # rest"
    and "ordinary t" and "parseTable n (tokenType (entry t)) = None"
    and "\<not> existsInFirstFollow (autoFollow n) (tokenType (entry t))"
  shows "parseStep shouldPrint parseTable g autoFollow ps =
           ps\<lparr>cln := lineNum t, hasSyntaxError := True,
              printed := printed ps @
                (if shouldPrint
                 then [InvalidToken (lineNum t) (tokenType (entry t)) (lexeme (entry t)) n] else []),
              inputPtr := rest,
              stack := (if rest = [] then stk else cur # stk)\<rparr>"
  using assms by (simp add: parseStep_def Let_def ordinary_def parse_ops)

lemma discard_step_more:
  assumes "stack ps = cur # stk" and "symbol (nodes ps ! cur) = NonTerm n"
    and "inputPtr ps = t # rest" and "rest \<noteq> []"
    and "ordinary t" and "parseTable n (tokenType (entry t)) = None"
    and "\<not> existsInFirstFollow (autoFollow n) (tokenType (entry t))"
  shows "parseStep shouldPrint parseTable g autoFollow ps =
           ps\<lparr>cln := lineNum t, hasSyntaxError := True,
              printed := printed ps @
                (if shouldPrint
                 then [InvalidToken (lineNum t) (tokenType (entry t)) (lexeme (entry t)) n] else []),
              inputPtr := rest\<rparr>"
  using assms by (simp add: parseStep_def Let_def ordinary_def parse_ops)

lemma follow_step:
  assumes "stack ps = cur # stk" and "symbol (nodes ps ! cur) = NonTerm n"
    and "inputPtr ps = t # rest"
    and "ordinary t" and "parseTable n (tokenType (entry t)) = None"
    and "existsInFirstFollow (autoFollow n) (tokenType (entry t))"
  shows "parseStep shouldPrint parseTable g autoFollow ps =
           ps\<lparr>cln := lineNum t, hasSyntaxError := True,
              printed := printed ps @
                (if shouldPrint
                 then [InvalidToken (lineNum t) (tokenType (entry t)) (lexeme (entry t)) n] else []),
              nodes := (nodes ps)[cur := (nodes ps ! cur)\<lparr>nodeLine := lineNum t\<rparr>],
              stack := stk\<rparr>"
  using assms by (simp add: parseStep_def Let_def ordinary_def parse_ops)

lemma discard_run:
  assumes "stack ps = cur # stk" and "symbol (nodes ps ! cur) = NonTerm n"
    and "inputPtr ps = skipped @ tok # rest"
    and "\<forall>t \<in> set skipped. ordinary t \<and> parseTable n (tokenType (entry t)) = None \<and>
            \<not> existsInFirstFollow (autoFollow n) (tokenType (entry t))"
  shows "parseLoop shouldPrint parseTable g autoFollow (length skipped + fuel) ps =
         parseLoop shouldPrint parseTable g autoFollow fuel
           (ps\<lparr>cln := (if skipped = [] then cln ps else lineNum (last skipped)),
               hasSyntaxError := (hasSyntaxError ps \<or> skipped \<noteq> []),
               printed := printed ps @
                 (if shouldPrint
                  then map (\<lambda>t. InvalidToken (lineNum t) (tokenType (entry t)) (lexeme (entry t)) n) skipped
                  else []),
               inputPtr := tok # rest\<rparr>)"
  using assms
proof (induction skipped arbitrary: ps)
  case Nil
  then have "ps\<lparr>inputPtr := tok # rest\<rparr> = ps" by (cases ps) simp
  then show ?case by simp
next
  case (Cons t ts)
  let ?ps1 = "ps\<lparr>cln := lineNum t, hasSyntaxError := True,
              printed := printed ps @
                (if shouldPrint
                 then [InvalidToken (lineNum t) (tokenType (entry t)) (lexeme (entry t)) n] else []),
              inputPtr := ts @ tok # rest\<rparr>"
  have step: "parseStep shouldPrint parseTable g autoFollow ps = ?ps1"
    using discard_step_more [of ps cur stk n t "ts @ tok # rest" parseTable autoFollow shouldPrint g]
      Cons.prems by simp
  have ih: "parseLoop shouldPrint parseTable g autoFollow (length ts + fuel) ?ps1 =
         parseLoop shouldPrint parseTable g autoFollow fuel
           (?ps1\<lparr>cln := (if ts = [] then cln ?ps1 else lineNum (last ts)),
               hasSyntaxError := (hasSyntaxError ?ps1 \<or> ts \<noteq> []),
               printed := printed ?ps1 @
                 (if shouldPrint
                  then map (\<lambda>t. InvalidToken (lineNum t) (tokenType (entry t)) (lexeme (entry t)) n) ts
                  else []),
               inputPtr := tok # rest\<rparr>)"
    using Cons.prems by (intro Cons.IH) simp_all
  have "parseLoop shouldPrint parseTable g autoFollow (length (t # ts) + fuel) ps =
        parseLoop shouldPrint parseTable g autoFollow (length ts + fuel) ?ps1"
    using Cons.prems(1,3) step by simp
  also note ih
  finally show ?case using Cons.prems(1) by simp
qed

text \<open>
  Claim C4. The stack top is a non-terminal \<open>n\<close>, and the input starts with the ordinary tokens
  \<open>skipped\<close>, each with an empty cell in row \<open>n\<close> and outside FOLLOW(\<open>n\<close>), followed by a token
  \<open>tok\<close>. Then the loop spends one iteration on each token of \<open>skipped\<close>: it reports it (one
  message a token, when printing is on), sets the error flag and discards it, and \<open>n\<close> stays on
  top; the loop goes on at \<open>tok\<close>. If \<open>tok\<close> has an empty cell too but is in FOLLOW(\<open>n\<close>), the
  next iteration reports it and pops \<open>n\<close> without consuming \<open>tok\<close>.
\<close>

theorem empty_cell_recovery:
  fixes n :: NonTerminal and shouldPrint :: bool and ps :: ParseState
    and skipped rest :: "TokenNode list" and tok :: TokenNode
  assumes "stack ps = cur # stk" and "symbol (nodes ps ! cur) = NonTerm n"
    and "inputPtr ps = skipped @ tok # rest"
    and "\<forall>t \<in> set skipped. ordinary t \<and> parseTable n (tokenType (entry t)) = None \<and>
            \<not> existsInFirstFollow (autoFollow n) (tokenType (entry t))"
  defines "report \<equiv> \<lambda>t. InvalidToken (lineNum t) (tokenType (entry t)) (lexeme (entry t)) n"
  defines "discarded \<equiv>
             ps\<lparr>cln := (if skipped = [] then cln ps else lineNum (last skipped)),
                hasSyntaxError := (hasSyntaxError ps \<or> skipped \<noteq> []),
                printed := printed ps @ (if shouldPrint then map report skipped else []),
                inputPtr := tok # rest\<rparr>"
  shows "parseLoop shouldPrint parseTable g autoFollow (length skipped + fuel) ps =
           parseLoop shouldPrint parseTable g autoFollow fuel discarded \<and>
         stack discarded = cur # stk \<and>
         (ordinary tok \<and> parseTable n (tokenType (entry tok)) = None \<and>
          existsInFirstFollow (autoFollow n) (tokenType (entry tok)) \<longrightarrow>
            parseStep shouldPrint parseTable g autoFollow discarded =
              discarded\<lparr>cln := lineNum tok, hasSyntaxError := True,
                 printed := printed discarded @ (if shouldPrint then [report tok] else []),
                 nodes := (nodes ps)[cur := (nodes ps ! cur)\<lparr>nodeLine := lineNum tok\<rparr>],
                 stack := stk\<rparr>)"
proof (intro conjI impI)
  show "parseLoop shouldPrint parseTable g autoFollow (length skipped + fuel) ps =
           parseLoop shouldPrint parseTable g autoFollow fuel discarded"
    unfolding discarded_def report_def using assms(1-4) by (rule discard_run)
  show "stack discarded = cur # stk" using assms(1) by (simp add: discarded_def)
  assume a: "ordinary tok \<and> parseTable n (tokenType (entry tok)) = None \<and>
          existsInFirstFollow (autoFollow n) (tokenType (entry tok))"
  have "parseStep shouldPrint parseTable g autoFollow discarded =
           discarded\<lparr>cln := lineNum tok, hasSyntaxError := True,
              printed := printed discarded @
                (if shouldPrint
                 then [InvalidToken (lineNum tok) (tokenType (entry tok)) (lexeme (entry tok)) n] else []),
              nodes := (nodes discarded)[cur := (nodes discarded ! cur)\<lparr>nodeLine := lineNum tok\<rparr>],
              stack := stk\<rparr>"
    using a assms(1,2) by (intro follow_step [where rest = rest]) (simp_all add: discarded_def)
  then show "parseStep shouldPrint parseTable g autoFollow discarded =
              discarded\<lparr>cln := lineNum tok, hasSyntaxError := True,
                 printed := printed discarded @ (if shouldPrint then [report tok] else []),
                 nodes := (nodes ps)[cur := (nodes ps ! cur)\<lparr>nodeLine := lineNum tok\<rparr>],
                 stack := stk\<rparr>"
    by (simp add: discarded_def report_def)
qed

lemma parseLoop_numeral:
  "parseLoop shouldPrint parseTable g autoFollow (numeral k) ps =
     (if stack ps \<noteq> [] \<and> inputPtr ps \<noteq> [] then
        parseLoop shouldPrint parseTable g autoFollow (pred_numeral k)
          (parseStep shouldPrint parseTable g autoFollow ps)
      else Some ps)"
  by (simp add: numeral_eq_Suc)

lemmas parse_examples = ordinary_def newTokenNode_def newSymbolTableEntry_def createParseNode_def
  existsInFirstFollow_def

text \<open>
  An instance: on top is \<^verbatim>\<open>program\<close> with an empty row and FOLLOW = \<open>{TK_SEM}\<close>; the
  tokens \<^verbatim>\<open>5\<close> and \<^verbatim>\<open>b2\<close> are discarded, then \<^verbatim>\<open>;\<close> pops \<^verbatim>\<open>program\<close>
  and stays in the input.
\<close>

theorem empty_cell_recovery_witness:
  "parseLoop True (\<lambda>_ _. None) [] recoveryFollow 4 recoveryState =
     Some \<lparr>nodes = [(createParseNode (NonTerm program))\<lparr>nodeLine := 2\<rparr>],
           stack = [],
           inputPtr = [newTokenNode (newSymbolTableEntry '';'' SEM 0) 2,
                       newTokenNode (newSymbolTableEntry [] DOLLAR 0) 3],
           hasSyntaxError = True, cln = 2,
           printed = [InvalidToken 1 NUM ''5'' program, InvalidToken 2 ID ''b2'' program,
                      InvalidToken 2 SEM '';'' program]\<rparr>"
proof -
  let ?D = "\<lparr>nodes = [createParseNode (NonTerm program)],
            stack = [0],
            inputPtr = [newTokenNode (newSymbolTableEntry '';'' SEM 0) 2,
                        newTokenNode (newSymbolTableEntry [] DOLLAR 0) 3],
            hasSyntaxError = True, cln = 2,
            printed = [InvalidToken 1 NUM ''5'' program, InvalidToken 2 ID ''b2'' program]\<rparr>"
  have T: "parseLoop True (\<lambda>_ _. None) [] recoveryFollow (Suc (Suc (Suc (Suc 0)))) recoveryState =
             parseLoop True (\<lambda>_ _. None) [] recoveryFollow (Suc (Suc 0)) ?D \<and>
           parseStep True (\<lambda>_ _. None) [] recoveryFollow ?D =
             ?D\<lparr>cln := 2, hasSyntaxError := True,
                 printed := printed ?D @ [InvalidToken 2 SEM '';'' program],
                 nodes := [(createParseNode (NonTerm program))\<lparr>nodeLine := 2\<rparr>],
                 stack := []\<rparr>"
    using empty_cell_recovery
      [where ps = recoveryState and cur = 0 and stk = "[]" and n = program
         and skipped = "[newTokenNode (newSymbolTableEntry ''5'' NUM 5) 1,
                         newTokenNode (newSymbolTableEntry ''b2'' ID 0) 2]"
         and tok = "newTokenNode (newSymbolTableEntry '';'' SEM 0) 2"
         and rest = "[newTokenNode (newSymbolTableEntry [] DOLLAR 0) 3]"
         and parseTable = "\<lambda>_ _. None" and autoFollow = recoveryFollow
         and shouldPrint = True and g = "[]" and fuel = "Suc (Suc 0)"]
    by (simp add: recoveryState_def recoveryFollow_def parse_examples)
  have "parseLoop True (\<lambda>_ _. None) [] recoveryFollow 4 recoveryState =
        parseLoop True (\<lambda>_ _. None) [] recoveryFollow (Suc (Suc (Suc (Suc 0)))) recoveryState"
    by (simp only: numeral_eq_Suc pred_numeral_simps BitM.simps)
  also have "\<dots> = parseLoop True (\<lambda>_ _. None) [] recoveryFollow (Suc (Suc 0)) ?D"
    using T by (rule conjunct1)
  also have "\<dots> = Some (?D\<lparr>cln := 2, hasSyntaxError := True,
                 printed := printed ?D @ [InvalidToken 2 SEM '';'' program],
                 nodes := [(createParseNode (NonTerm program))\<lparr>nodeLine := 2\<rparr>],
                 stack := []\<rparr>)"
    by (simp add: T [THEN conjunct2])
  finally show ?thesis by simp
qed

section \<open>An unopenable grammar file\<close>

lemma getAllTokens_empty_file:
  "getAllTokens (Suc (Suc fuel)) [] twinBuffer False =
     Some ([newTokenNode (newSymbolTableEntry [] DOLLAR 0) 1],
           \<lparr>fileRest = [], fileEof = True, buffer = twinBuffer(0 := NUL), forwardPtr = 0,
            retractFlag = False, lineNumber = 1, symTable = []\<rparr>)"
  by (simp add: getAllTokens_def getNextToken_def dfaStep_def state0_NUL [OF fetch_empty_file]
      newTokenNode_def newSymbolTableEntry_def)

lemma readGrammar_unopenable:
  "\<not> grammarLoaded G \<Longrightarrow>
   readGrammar None G = G\<lparr>grammarLoaded := True, console := console G @ [Line ''Could not open grammar file'']\<rparr>"
  by (simp add: readGrammar_def)

text \<open>The lexer's wrapper ends the process when it is given no file.\<close>

lemma lexInput_unopenable:
  "lexInput fuel None twinBuffer flag G =
     Some (Exits (- 1) (console G @ [Line ''Error: Input file not found for lexical analysis'']))"
  by (simp add: lexInput_def)

lemma first_follow_empty_grammar:
  "initializeAndComputeFirstAndFollow (Suc fuel) (G\<lparr>Grammar := [], firstFollowComputed := False\<rparr>) =
     Some (G\<lparr>Grammar := [], firstFollowComputed := True, AutoFirst := (\<lambda>_. []),
             AutoFollow := (\<lambda>_. [])(program := [DOLLAR])\<rparr>)"
  by (simp add: initializeAndComputeFirstAndFollow_def computeFirstSets.simps [of "[]"] firstPass_def
        computeFollowSets_def followPass_def)

lemma parse_dollar_empty_table:
  "parseTokens True (\<lambda>_ _. None) [] ((\<lambda>_. [])(program := [DOLLAR])) (Suc (Suc fuel))
     [newTokenNode (newSymbolTableEntry [] DOLLAR 0) 1] False out =
   Some \<lparr>nodes = [(createParseNode (NonTerm program))\<lparr>nodeLine := 1\<rparr>], stack = [],
         inputPtr = [newTokenNode (newSymbolTableEntry [] DOLLAR 0) 1],
         hasSyntaxError = True, cln = 1,
         printed = out @ [Line ''Parsing starting...'', InvalidToken 1 DOLLAR [] program,
                          Line ''The input file has syntactic errors!'']\<rparr>"
  by (simp add: parseTokens_def parseStep_def drain_def parse_ops Let_def createParseNode_def
        newTokenNode_def newSymbolTableEntry_def existsInFirstFollow_def)

text \<open>
  Claim C8. The grammar file cannot be opened and the source file is empty. The call of
  \<^verbatim>\<open>parseInputSourceCode\<close> does not end the process: it returns. \<^verbatim>\<open>readGrammar\<close> prints
  its line and returns, the FIRST and FOLLOW sets and the parse table are computed from the
  empty grammar, the parser runs on the empty table, reports the end marker as a syntax error
  and the output file gets the text about syntax errors.
\<close>

theorem unopenable_grammar_file_not_fatal:
  "parseInputSourceCode True (Suc (Suc fuel)) (Some []) None twinBuffer False initialGlobals =
     Some (Returns
       (\<lparr>grammarLoaded = True, Grammar = [], firstFollowComputed = True,
         AutoFirst = (\<lambda>_. []), AutoFollow = (\<lambda>_. [])(program := [DOLLAR]),
         parseTreeInitialized = True, theParseTable = (\<lambda>_ _. None),
         console = [Line ''Could not open grammar file'', Line ''Parsing starting...'',
                    InvalidToken 1 DOLLAR [] program,
                    Line ''The input file has syntactic errors!'']\<rparr>,
        Some SyntaxErrorsFile))"
proof -
  let ?G1 = "initialGlobals\<lparr>grammarLoaded := True, console := [Line ''Could not open grammar file'']\<rparr>"
  have lex: "lexInput (Suc (Suc fuel)) (Some []) twinBuffer False initialGlobals =
               Some (Returns ([newTokenNode (newSymbolTableEntry [] DOLLAR 0) 1], initialGlobals))"
    by (simp add: lexInput_def getAllTokens_empty_file) (simp add: newTokenNode_def newSymbolTableEntry_def)
  have rd: "readGrammar None initialGlobals = ?G1"
    by (simp add: readGrammar_def initialGlobals_def)
  have ff: "initializeAndComputeFirstAndFollow (Suc (Suc fuel)) ?G1 =
              Some (?G1\<lparr>firstFollowComputed := True, AutoFollow := (\<lambda>_. [])(program := [DOLLAR])\<rparr>)"
    using first_follow_empty_grammar [of "Suc fuel" ?G1] by (simp add: initialGlobals_def)
  have pt: "initializeParseTable (?G1\<lparr>firstFollowComputed := True, AutoFollow := (\<lambda>_. [])(program := [DOLLAR])\<rparr>) =
              ?G1\<lparr>firstFollowComputed := True, AutoFollow := (\<lambda>_. [])(program := [DOLLAR]),
                   parseTreeInitialized := True\<rparr>"
    by (simp add: initializeParseTable_def addRulesToParseTable_def initialGlobals_def)
  show ?thesis
    unfolding parseInputSourceCode_def
    by (simp add: lex rd ff pt Let_def)
       (simp add: initialGlobals_def parse_dollar_empty_table)
qed

end
